theory Spec2Isabelle
  imports Complex_Main "HOL-Library.Sublist"
begin

section \<open>Numbers and dates\<close>

text \<open>
  Conventions of the embedding.
  \<^item> A JavaScript \<open>number\<close> is an IEEE 754 double. The finite doubles are kept as the
    reals they denote, and an arithmetic operation (\<open>+\<close>, \<open>-\<close>, \<open>*\<close>, \<open>/\<close>,
    \<open>Math.sqrt\<close>)
    is the exact operation followed by \<open>rnd\<close>, the rounding to the nearest real with a
    53-bit significand, ties to even. The exponent is not bounded: overflow to
    \<open>Infinity\<close> and gradual underflow are left out, and the one \<open>NaN\<close> of the code
    that is embedded (the level of a negative XP) is \<open>None\<close>. \<open>Math.round x\<close> is
    \<open>\<lfloor>x + 1/2\<rfloor>\<close> (HOL's \<open>round\<close>), \<open>Math.floor\<close> is \<open>\<lfloor>x\<rfloor>\<close>, and \<open>Math.min\<close>,
    \<open>Math.max\<close> and the comparisons are exact. A decimal literal that is not a double,
    such as \<open>1.2\<close>, is \<open>rnd\<close> of its value.
  \<^item> A \<open>Date\<close> is its time value, the integer number of milliseconds since the epoch.
    Local time is read through a \<open>zone\<close>, which gives the offset of local time from UTC
    as ECMAScript's \<open>LocalTZA\<close> does.
  \<^item> \<open>new Date()\<close> and \<open>Date.now()\<close> read a clock; the clock value is an argument of
    every function that reads it.
  \<^item> Display-only fields (description texts built by string interpolation, icons,
    generation dates of insights) are left out of the records.
\<close>

subsection \<open>Double-precision arithmetic\<close>

text \<open>For \<open>x \<ge> 1\<close>, the \<open>n\<close> with \<open>2 ^ n \<le> x < 2 ^ (n + 1)\<close>.\<close>

function expo_ge1 :: "real \<Rightarrow> nat" where
  "expo_ge1 x = (if x < 2 then 0 else Suc (expo_ge1 (x / 2)))"
  by pat_completeness auto
termination
proof (relation "measure (\<lambda>x. nat \<lfloor>x\<rfloor>)")
  show "wf (measure (\<lambda>x. nat \<lfloor>x\<rfloor>))" by simp
next
  fix x :: real assume "\<not> x < 2"
  then have "\<lfloor>x / 2\<rfloor> < \<lfloor>x\<rfloor>" "0 < \<lfloor>x\<rfloor>" by linarith+
  then show "(x / 2, x) \<in> measure (\<lambda>x. nat \<lfloor>x\<rfloor>)" by simp
qed

declare expo_ge1.simps [simp del]

definition exponent :: "real \<Rightarrow> int" where
  \<comment> \<open>for \<open>x \<noteq> 0\<close>, the \<open>e\<close> with \<open>2^e \<le> |x| < 2^(e + 1)\<close>\<close>
  "exponent x =
     (if 1 \<le> \<bar>x\<bar> then int (expo_ge1 \<bar>x\<bar>)
      else let n = expo_ge1 (1 / \<bar>x\<bar>)
           in if \<bar>x\<bar> * 2 ^ n = 1 then - int n else - int n - 1)"

definition pow2 :: "int \<Rightarrow> real" where
  "pow2 e = (if 0 \<le> e then 2 ^ nat e else 1 / 2 ^ nat (- e))"

definition round_half_even :: "real \<Rightarrow> int" where
  "round_half_even q =
     (let f = \<lfloor>q\<rfloor>; r = q - of_int f
      in if r < 1 / 2 then f else if 1 / 2 < r then f + 1 else if even f then f else f + 1)"

definition rnd :: "real \<Rightarrow> real" where
  "rnd x = (if x = 0 then 0
            else let ulp = pow2 (exponent x - 52)
                 in of_int (round_half_even (x / ulp)) * ulp)"

definition fadd :: "real \<Rightarrow> real \<Rightarrow> real" where
  "fadd x y = rnd (x + y)"

definition fsub :: "real \<Rightarrow> real \<Rightarrow> real" where
  "fsub x y = rnd (x - y)"

definition fmul :: "real \<Rightarrow> real \<Rightarrow> real" where
  "fmul x y = rnd (x * y)"

definition fdiv :: "real \<Rightarrow> real \<Rightarrow> real" where
  "fdiv x y = rnd (x / y)"

definition fsqrt :: "real \<Rightarrow> real" where
  "fsqrt x = rnd (sqrt x)"

definition orZero :: "real option \<Rightarrow> real" where
  \<comment> \<open>\<open>x || 0\<close> for an optional number\<close>
  "orZero x = (case x of None \<Rightarrow> 0 | Some v \<Rightarrow> v)"

subsection \<open>Dates and the local time zone\<close>

type_synonym Date = int

definition msPerDay :: int where
  "msPerDay = 1000 * 60 * 60 * 24"

definition msPerHour :: int where
  "msPerHour = 1000 * 60 * 60"

text \<open>
  \<open>tza_utc z t\<close> is the offset of local time, in milliseconds, at the UTC time value \<open>t\<close>
  (\<open>LocalTZA(t, true)\<close>), and \<open>tza_local z t\<close> the offset at the local time value \<open>t\<close>
  (\<open>LocalTZA(t, false)\<close>). In a zone with daylight saving time they change at the
  transitions.
\<close>

record zone =
  tza_utc :: "int \<Rightarrow> int"
  tza_local :: "int \<Rightarrow> int"

definition LocalTime :: "zone \<Rightarrow> Date \<Rightarrow> int" where
  "LocalTime z t = t + tza_utc z t"

definition UTC :: "zone \<Rightarrow> int \<Rightarrow> Date" where
  "UTC z t = t - tza_local z t"

definition dayOf :: "int \<Rightarrow> int" where
  \<comment> \<open>\<open>Day(t)\<close>, the day number of a time value\<close>
  "dayOf t = t div msPerDay"

definition localDay :: "zone \<Rightarrow> Date \<Rightarrow> int" where
  \<comment> \<open>the local calendar day of a date; \<open>toDateString\<close> prints it\<close>
  "localDay z t = dayOf (LocalTime z t)"

definition startOfDay :: "zone \<Rightarrow> Date \<Rightarrow> Date" where
  \<comment> \<open>\<open>d.setHours(0, 0, 0, 0)\<close>: midnight of the local day, as a time value\<close>
  "startOfDay z t = UTC z (localDay z t * msPerDay)"

definition getHours :: "zone \<Rightarrow> Date \<Rightarrow> nat" where
  "getHours z t = nat ((LocalTime z t div msPerHour) mod 24)"

definition utc :: zone where
  "utc = \<lparr>tza_utc = (\<lambda>t. 0), tza_local = (\<lambda>t. 0)\<rparr>"

definition fixed_zone :: "int \<Rightarrow> zone" where
  \<comment> \<open>a zone without daylight saving time\<close>
  "fixed_zone c = \<lparr>tza_utc = (\<lambda>t. c), tza_local = (\<lambda>t. c)\<rparr>"

section \<open>Data model (types/analytics.ts, types/index.ts)\<close>

datatype EventType =
    voice_recording_started
  | voice_recording_completed
  | voice_recording_failed
  | file_upload_started
  | file_upload_completed
  | file_upload_failed
  | search_performed
  | search_result_clicked
  | item_deleted
  | item_viewed
  | session_started
  | session_ended
  | goal_created
  | goal_completed
  | achievement_unlocked
  | feature_used
  | error_occurred

text \<open>
  Of the optional properties of \<open>EventData\<close>: the two that the engine reads
  (\<open>duration\<close>, \<open>resultsCount\<close>) and the two that tell which goal, achievement or level
  an event is about (\<open>goalId\<close>, \<open>currentValue\<close>).
\<close>

record EventData =
  duration :: "real option"
  resultsCount :: "real option"
  goalId :: "string option"
  currentValue :: "real option"

definition noData :: EventData where
  "noData = \<lparr>duration = None, resultsCount = None, goalId = None, currentValue = None\<rparr>"

record AnalyticsEvent =
  type_ev :: EventType
  timestamp :: Date
  sessionId :: string
  data :: EventData

record DailyUsageData =
  date :: Date
  recordingMinutes :: real
  documentsProcessed :: real
  searchCount :: real
  timeSpent :: real
  sessionsCount :: real
  itemsCreated :: real
  itemsDeleted :: real
  productivityScore :: real

datatype ContentType = voice_item | file_item

record ContentItem =
  id_item :: string
  type_item :: ContentType
  title_item :: string
  content :: string
  timestamp_item :: Date

text \<open>
  The aggregate snapshot. The fields \<open>weeklyUsage\<close>, \<open>monthlyUsage\<close>, \<open>mostActiveDay\<close>,
  \<open>mostSearchedTerms\<close> and \<open>contentCategories\<close> (calendar roll-ups and text analysis)
  are not part of the model.
\<close>

record UserAnalytics =
  totalItems :: real
  voiceRecordings :: real
  documentsUploaded :: real
  searchesPerformed :: real
  dailyUsage :: "DailyUsageData list"
  productivityScore_ua :: real
  streakDays :: real
  level :: real
  xp :: real
  peakUsageHours :: "nat list"
  averageSessionDuration :: real
  totalTimeSpent :: real
  averageContentLength :: real
  lastActiveDate :: Date
  accountCreatedDate :: Date
  totalSessions :: real
  averageItemsPerSession :: real

datatype Level3 = low | medium | high

datatype InsightType =
    usage_pattern
  | productivity_trend
  | content_analysis
  | search_behavior
  | time_optimization
  | goal_progress

record ProductivityInsight =
  id_ins :: string
  type_ins :: InsightType
  title_ins :: string
  impact :: Level3
  category_ins :: string
  actionable :: bool
  relatedMetrics :: "string list"

section \<open>Calculator (AnalyticsCalculationService)\<close>

subsection \<open>Productivity score\<close>

definition slice_last :: "nat \<Rightarrow> 'a list \<Rightarrow> 'a list" where
  \<comment> \<open>\<open>xs.slice(-n)\<close>\<close>
  "slice_last n xs = drop (length xs - n) xs"

text \<open>The \<open>for (const day of recentDays)\<close> loop, with \<open>totalScore\<close> as accumulator; each
  \<open>+=\<close> is a double addition.\<close>

fun score_loop :: "DailyUsageData list \<Rightarrow> real \<Rightarrow> real" where
  "score_loop [] totalScore = totalScore"
| "score_loop (day # rest) totalScore =
     (let dayScore0 = 0;
          contentScore = min (fmul (itemsCreated day) 10) 40;
          dayScore1 = fadd dayScore0 contentScore;
          searchScore = min (fmul (searchCount day) 2) 20;
          dayScore2 = fadd dayScore1 searchScore;
          timeScore = min (fmul (fdiv (timeSpent day) 60) 10) 20;
          dayScore3 = fadd dayScore2 timeScore;
          consistencyScore = (if itemsCreated day > 0 then 20 else 0);
          dayScore4 = fadd dayScore3 consistencyScore
      in score_loop rest (fadd totalScore (min dayScore4 100)))"

definition calculateProductivityScore :: "DailyUsageData list \<Rightarrow> ContentItem list \<Rightarrow> real" where
  "calculateProductivityScore dailyUsage' contentItems =
     (if length dailyUsage' = 0 then 0
      else let recentDays = slice_last 7 dailyUsage';
               totalScore = score_loop recentDays 0
           in of_int (round (fdiv totalScore (real (length recentDays)))))"

text \<open>
  The per-day score and the mean as the specification words them: first over the reals,
  then with each operation of the formula done in double arithmetic, the terms added from
  left to right starting from 0.
\<close>

definition spec_dayScore :: "DailyUsageData \<Rightarrow> real" where
  "spec_dayScore d =
     min (min (itemsCreated d * 10) 40 + min (searchCount d * 2) 20
          + min ((timeSpent d / 60) * 10) 20 + (if itemsCreated d > 0 then 20 else 0)) 100"

definition spec_mean :: "real list \<Rightarrow> real" where
  "spec_mean xs = sum_list xs / real (length xs)"

definition double_dayScore :: "DailyUsageData \<Rightarrow> real" where
  "double_dayScore d =
     min (fadd (fadd (fadd (fadd 0 (min (fmul (itemsCreated d) 10) 40))
                           (min (fmul (searchCount d) 2) 20))
                     (min (fmul (fdiv (timeSpent d) 60) 10) 20))
               (if itemsCreated d > 0 then 20 else 0)) 100"

definition double_sum :: "real list \<Rightarrow> real" where
  "double_sum xs = foldl fadd 0 xs"

definition double_mean :: "real list \<Rightarrow> real" where
  "double_mean xs = fdiv (double_sum xs) (real (length xs))"

subsection \<open>Peak usage hours\<close>

text \<open>The \<open>events.forEach\<close> loop over the 24 hour buckets.\<close>

fun count_hours :: "zone \<Rightarrow> AnalyticsEvent list \<Rightarrow> nat list \<Rightarrow> nat list" where
  "count_hours z [] hourCounts = hourCounts"
| "count_hours z (event # rest) hourCounts =
     (let hour = getHours z (timestamp event)
      in count_hours z rest (hourCounts[hour := hourCounts ! hour + 1]))"

definition analyzePeakUsageHours :: "zone \<Rightarrow> AnalyticsEvent list \<Rightarrow> nat list" where
  \<comment> \<open>\<open>Array.prototype.sort\<close> is stable; the comparator orders by count, descending\<close>
  "analyzePeakUsageHours z events =
     (let hourCounts = count_hours z events (replicate 24 0);
          hourIndices = [0..<24];
          sorted_idx = sort_key (\<lambda>a. - int (hourCounts ! a)) hourIndices
      in take 3 sorted_idx)"

subsection \<open>Insights\<close>

definition slice_neg :: "nat \<Rightarrow> nat \<Rightarrow> 'a list \<Rightarrow> 'a list" where
  \<comment> \<open>\<open>xs.slice(-a, -b)\<close>\<close>
  "slice_neg a b xs =
     (let start = length xs - a; stop = length xs - b
      in take (stop - start) (drop start xs))"

definition generateInsights ::
  "zone \<Rightarrow> UserAnalytics \<Rightarrow> DailyUsageData list \<Rightarrow> AnalyticsEvent list
     \<Rightarrow> ProductivityInsight list" where
  "generateInsights z userAnalytics dailyUsage' events =
     (let insights0 = [];
          peakHours = analyzePeakUsageHours z events;
          insights1 =
            (if length peakHours > 0
             then insights0 @ [\<lparr>id_ins = ''peak_usage_pattern'', type_ins = usage_pattern,
                    title_ins = ''Peak Usage Hours Identified'', impact = medium,
                    category_ins = ''Time Management'', actionable = True,
                    relatedMetrics = [''session_duration'', ''items_created'']\<rparr>]
             else insights0);
          insights2 =
            (if length dailyUsage' \<ge> 7
             then let recentWeek = slice_last 7 dailyUsage';
                      previousWeek = slice_neg 14 7 dailyUsage';
                      recentAvg =
                        fdiv (foldl (\<lambda>sum day. fadd sum (itemsCreated day)) 0 recentWeek) 7;
                      previousAvg =
                        fdiv (foldl (\<lambda>sum day. fadd sum (itemsCreated day)) 0 previousWeek) 7
                  in if recentAvg > fmul previousAvg (rnd 1.2)
                     then insights1 @ [\<lparr>id_ins = ''productivity_increase'',
                            type_ins = productivity_trend,
                            title_ins = ''Productivity Increasing'', impact = high,
                            category_ins = ''Performance'', actionable = False,
                            relatedMetrics = [''items_created'', ''productivity_score'']\<rparr>]
                     else insights1
             else insights1);
          searchEvents = filter (\<lambda>event. type_ev event = search_performed) events;
          searchSuccessRate =
            (if length searchEvents > 0
             then fdiv (real (length (filter (\<lambda>event. orZero (resultsCount (data event)) > 0)
                                        searchEvents)))
                       (real (length searchEvents))
             else 0);
          insights3 =
            (if searchSuccessRate < rnd 0.7 \<and> length searchEvents > 10
             then insights2 @ [\<lparr>id_ins = ''search_optimization'', type_ins = search_behavior,
                    title_ins = ''Search Results Could Be Improved'', impact = medium,
                    category_ins = ''Content Organization'', actionable = True,
                    relatedMetrics = [''search_success_rate'', ''content_utilization'']\<rparr>]
             else insights2)
      in insights3)"

subsection \<open>Streak (AnalyticsService.calculateCurrentStreak)\<close>

definition sortByDateDesc :: "DailyUsageData list \<Rightarrow> DailyUsageData list" where
  \<comment> \<open>\<open>dailyUsage.sort((a, b) => b.date - a.date)\<close>, a stable sort\<close>
  "sortByDateDesc dailyUsage' = sort_key (\<lambda>u. - date u) dailyUsage'"

definition daysDiff :: "zone \<Rightarrow> Date \<Rightarrow> DailyUsageData \<Rightarrow> int" where
  \<comment> \<open>\<open>Math.floor((today - usageDate) / msPerDay)\<close>, \<open>usageDate\<close> set to its local midnight\<close>
  "daysDiff z today usage =
     \<lfloor>fdiv (fsub (real_of_int today) (real_of_int (startOfDay z (date usage))))
           (real_of_int msPerDay)\<rfloor>"

fun streak_loop :: "zone \<Rightarrow> Date \<Rightarrow> DailyUsageData list \<Rightarrow> nat \<Rightarrow> nat" where
  "streak_loop z today [] streak = streak"
| "streak_loop z today (usage # rest) streak =
     (if daysDiff z today usage = int streak \<and> itemsCreated usage > 0
      then streak_loop z today rest (streak + 1)
      else streak)"

definition calculateCurrentStreak :: "zone \<Rightarrow> Date \<Rightarrow> DailyUsageData list \<Rightarrow> nat" where
  "calculateCurrentStreak z now dailyUsage' =
     (if length dailyUsage' = 0 then 0
      else let sortedUsage = sortByDateDesc dailyUsage';
               today = startOfDay z now
           in streak_loop z today sortedUsage 0)"

text \<open>A user is active on a local calendar day when some daily row dated on that day has
  \<open>itemsCreated > 0\<close>.\<close>

definition active_on :: "zone \<Rightarrow> DailyUsageData list \<Rightarrow> int \<Rightarrow> bool" where
  "active_on z rows day = (\<exists>u\<in>set rows. localDay z (date u) = day \<and> itemsCreated u > 0)"

section \<open>Milestones\<close>

datatype MilestoneType =
    first_recording
  | first_upload
  | first_search
  | items_milestone
  | search_milestone
  | streak_milestone
  | time_milestone
  | productivity_milestone

record Milestone =
  id_ms :: string
  type_ms :: MilestoneType
  title_ms :: string
  value_ms :: real

text \<open>The decimal text of a natural number, as template literals print it.\<close>

fun string_of_nat :: "nat \<Rightarrow> string" where
  "string_of_nat n =
     (if n < 10 then [''0123456789'' ! n]
      else string_of_nat (n div 10) @ [''0123456789'' ! (n mod 10)])"

declare string_of_nat.simps [simp del]

text \<open>
  A \<open>for (const milestone of thresholds) { if (hit) milestones.push(mk) }\<close> loop; the
  three loops of \<open>checkMilestones\<close> and the two of \<open>detectMilestones\<close> have this shape.
\<close>

fun push_milestones ::
  "(nat \<Rightarrow> bool) \<Rightarrow> (nat \<Rightarrow> Milestone) \<Rightarrow> nat list \<Rightarrow> Milestone list \<Rightarrow> Milestone list" where
  "push_milestones hit mk [] milestones = milestones"
| "push_milestones hit mk (milestone # rest) milestones =
     push_milestones hit mk rest
       (if hit milestone then milestones @ [mk milestone] else milestones)"

subsection \<open>GamificationService.checkMilestones\<close>

definition contentMilestones :: "nat list" where
  "contentMilestones = [1, 5, 10, 25, 50, 100, 250, 500, 1000]"

definition streakMilestones :: "nat list" where
  "streakMilestones = [3, 7, 14, 30, 60, 100, 365]"

definition searchMilestones :: "nat list" where
  "searchMilestones = [10, 50, 100, 500, 1000]"

definition items_ms :: "nat \<Rightarrow> Milestone" where
  "items_ms milestone = \<lparr>id_ms = ''items_'' @ string_of_nat milestone, type_ms = items_milestone,
     title_ms = string_of_nat milestone @ '' Items Created'', value_ms = real milestone\<rparr>"

definition streak_ms :: "nat \<Rightarrow> Milestone" where
  "streak_ms milestone = \<lparr>id_ms = ''streak_'' @ string_of_nat milestone, type_ms = streak_milestone,
     title_ms = string_of_nat milestone @ '' Day Streak'', value_ms = real milestone\<rparr>"

definition searches_ms :: "nat \<Rightarrow> Milestone" where
  "searches_ms milestone = \<lparr>id_ms = ''searches_'' @ string_of_nat milestone,
     type_ms = search_milestone,
     title_ms = string_of_nat milestone @ '' Searches Performed'', value_ms = real milestone\<rparr>"

definition checkMilestones :: "UserAnalytics \<Rightarrow> Milestone list" where
  "checkMilestones userAnalytics =
     (let milestones0 = [];
          milestones1 = push_milestones (\<lambda>milestone. totalItems userAnalytics = real milestone)
                          items_ms contentMilestones milestones0;
          milestones2 = push_milestones (\<lambda>milestone. streakDays userAnalytics = real milestone)
                          streak_ms streakMilestones milestones1;
          milestones3 = push_milestones (\<lambda>milestone. searchesPerformed userAnalytics = real milestone)
                          searches_ms searchMilestones milestones2
      in milestones3)"

subsection \<open>AnalyticsCalculationService.detectMilestones\<close>

definition itemMilestones :: "nat list" where
  "itemMilestones = [10, 25, 50, 100, 250, 500, 1000]"

definition streakMilestones' :: "nat list" where
  "streakMilestones' = [7, 14, 30, 60, 100]"

definition detectMilestones :: "UserAnalytics \<Rightarrow> AnalyticsEvent list \<Rightarrow> Milestone list" where
  "detectMilestones userAnalytics events =
     (let milestones0 =
            (case find (\<lambda>event. type_ev event = voice_recording_completed) events of
               Some firstRecording \<Rightarrow>
                 [\<lparr>id_ms = ''first_recording'', type_ms = first_recording,
                   title_ms = ''First Voice Recording'', value_ms = 1\<rparr>]
             | None \<Rightarrow> []);
          milestones1 = push_milestones (\<lambda>milestone. totalItems userAnalytics \<ge> real milestone)
                          items_ms itemMilestones milestones0;
          milestones2 = push_milestones (\<lambda>milestone. streakDays userAnalytics \<ge> real milestone)
                          streak_ms streakMilestones' milestones1
      in milestones2)"

definition has_milestone :: "Milestone list \<Rightarrow> MilestoneType \<Rightarrow> nat \<Rightarrow> bool" where
  \<comment> \<open>a milestone keyed by (type, threshold) is in the list\<close>
  "has_milestone ms ty t = (\<exists>m\<in>set ms. type_ms m = ty \<and> value_ms m = real t)"

section \<open>Goals\<close>

datatype GoalStatus = active | completed | paused | failed

datatype GoalType =
    daily_recordings
  | daily_uploads
  | daily_searches
  | weekly_items
  | monthly_items
  | streak_days
  | productivity_score
  | time_spent

record Goal =
  id_goal :: string
  type_goal :: GoalType
  title_goal :: string
  target :: real
  current :: real
  deadline :: Date
  createdDate :: Date
  status :: GoalStatus
  priority :: Level3
  category_goal :: string

section \<open>Event Store (AnalyticsStorageService over IndexedDB)\<close>

text \<open>
  The environment of one service-level call: the clock, the local time zone, and whether
  the store's reads and writes succeed while the call runs. A failed IndexedDB operation
  rejects; each storage method then does what its \<open>catch\<close> block does.
\<close>

record env =
  clock :: Date
  tz :: zone
  readable :: bool
  writable :: bool

datatype error = StoreError | TypeError

text \<open>An \<open>AnalyticsRecord\<close> of type \<open>daily_usage\<close>; its id \<open>daily_usage_<date key>\<close> is
  the day number of the (UTC) date key.\<close>

record DailyRecord =
  key_day :: int
  timestamp_rec :: Date
  data_rec :: DailyUsageData

text \<open>The tables; the record \<open>user_analytics_current\<close> of the analytics table is kept
  apart from its daily-usage records.\<close>

record db =
  events_tbl :: "AnalyticsEvent list"
  daily_records :: "DailyRecord list"
  user_analytics_current :: "UserAnalytics option"
  goals_tbl :: "Goal list"
  insights_tbl :: "ProductivityInsight list"
  currentSessionId :: string

definition saveUserAnalytics :: "env \<Rightarrow> UserAnalytics \<Rightarrow> db \<Rightarrow> error + db" where
  "saveUserAnalytics e analytics d =
     (if writable e then Inr (d\<lparr>user_analytics_current := Some analytics\<rparr>)
      else Inl StoreError)"

definition getUserAnalytics :: "env \<Rightarrow> db \<Rightarrow> UserAnalytics option" where
  \<comment> \<open>a failed read is logged and answered with \<open>null\<close>\<close>
  "getUserAnalytics e d = (if readable e then user_analytics_current d else None)"

definition formatDateKey :: "Date \<Rightarrow> int" where
  \<comment> \<open>\<open>date.toISOString().split('T')[0]\<close>, the UTC date\<close>
  "formatDateKey d = dayOf d"

text \<open>\<open>Table.put\<close>: replace the record with the same primary key, or add one.\<close>

fun put_daily :: "DailyRecord \<Rightarrow> DailyRecord list \<Rightarrow> DailyRecord list" where
  "put_daily r [] = [r]"
| "put_daily r (x # xs) = (if key_day x = key_day r then r # xs else x # put_daily r xs)"

definition saveDailyUsage :: "env \<Rightarrow> Date \<Rightarrow> DailyUsageData \<Rightarrow> db \<Rightarrow> error + db" where
  "saveDailyUsage e d0 usage d =
     (if writable e
      then Inr (d\<lparr>daily_records :=
                  put_daily \<lparr>key_day = formatDateKey d0, timestamp_rec = d0, data_rec = usage\<rparr>
                    (daily_records d)\<rparr>)
      else Inl StoreError)"

definition getDailyUsage :: "env \<Rightarrow> Date \<Rightarrow> db \<Rightarrow> DailyUsageData option" where
  "getDailyUsage e d0 d =
     (if readable e
      then map_option data_rec (find (\<lambda>r. key_day r = formatDateKey d0) (daily_records d))
      else None)"

definition getDailyUsageRange :: "env \<Rightarrow> Date \<Rightarrow> Date \<Rightarrow> db \<Rightarrow> DailyUsageData list" where
  \<comment> \<open>a failed read is logged and answered with the empty list\<close>
  "getDailyUsageRange e startDate endDate d =
     (if readable e
      then sort_key date
             (map data_rec
               (filter (\<lambda>r. timestamp_rec r \<ge> startDate \<and> timestamp_rec r \<le> endDate)
                  (daily_records d)))
      else [])"

definition createEmptyDailyUsage :: "Date \<Rightarrow> DailyUsageData" where
  "createEmptyDailyUsage d0 =
     \<lparr>date = d0, recordingMinutes = 0, documentsProcessed = 0, searchCount = 0, timeSpent = 0,
      sessionsCount = 1, itemsCreated = 0, itemsDeleted = 0, productivityScore = 0\<rparr>"

definition updateRealTimeMetrics :: "env \<Rightarrow> AnalyticsEvent \<Rightarrow> db \<Rightarrow> db" where
  "updateRealTimeMetrics e event d =
     (let today = clock e;
          todayUsage = (case getDailyUsage e today d of
                          Some u \<Rightarrow> u
                        | None \<Rightarrow> createEmptyDailyUsage today);
          todayUsage' =
            (case type_ev event of
               voice_recording_completed \<Rightarrow>
                 todayUsage\<lparr>recordingMinutes :=
                              fadd (recordingMinutes todayUsage) (orZero (duration (data event))),
                            itemsCreated := fadd (itemsCreated todayUsage) 1\<rparr>
             | file_upload_completed \<Rightarrow>
                 todayUsage\<lparr>documentsProcessed := fadd (documentsProcessed todayUsage) 1,
                            itemsCreated := fadd (itemsCreated todayUsage) 1\<rparr>
             | search_performed \<Rightarrow> todayUsage\<lparr>searchCount := fadd (searchCount todayUsage) 1\<rparr>
             | item_deleted \<Rightarrow> todayUsage\<lparr>itemsDeleted := fadd (itemsDeleted todayUsage) 1\<rparr>
             | _ \<Rightarrow> todayUsage)
      in case saveDailyUsage e today todayUsage' d of
           Inr d' \<Rightarrow> d'
         | Inl err \<Rightarrow> d)"


definition trackEvent_storage :: "env \<Rightarrow> EventType \<Rightarrow> EventData \<Rightarrow> db \<Rightarrow> db" where
  \<comment> \<open>the \<open>catch\<close> logs and does not rethrow: a failed \<open>events.add\<close> drops the event\<close>
  "trackEvent_storage e ty dat d =
     (let event = \<lparr>type_ev = ty, timestamp = clock e, sessionId = currentSessionId d,
                    data = dat\<rparr>
      in if writable e
         then updateRealTimeMetrics e event (d\<lparr>events_tbl := events_tbl d @ [event]\<rparr>)
         else d)"

record AnalyticsQuery =
  dateRange :: "(Date \<times> Date) option"
  limit :: "nat option"

definition getEvents :: "env \<Rightarrow> AnalyticsQuery \<Rightarrow> db \<Rightarrow> AnalyticsEvent list" where
  \<comment> \<open>\<open>orderBy('timestamp')\<close> as a stable sort of the table; no caller passes \<open>offset\<close>;
      a failed read is logged and answered with the empty list\<close>
  "getEvents e query d =
     (if readable e
      then let collection0 = sort_key timestamp (events_tbl d);
               collection1 =
                 (case dateRange query of
                    Some (start, stop) \<Rightarrow>
                      filter (\<lambda>event. timestamp event \<ge> start \<and> timestamp event \<le> stop) collection0
                  | None \<Rightarrow> collection0);
               collection2 =
                 (case limit query of
                    Some n \<Rightarrow> (if n \<noteq> 0 then take n collection1 else collection1)
                  | None \<Rightarrow> collection1)
           in collection2
      else [])"

section \<open>Aggregator (AnalyticsService)\<close>

record service =
  storageService :: db
  initialized :: bool

definition initialAnalytics :: "Date \<Rightarrow> UserAnalytics" where
  "initialAnalytics now =
     \<lparr>totalItems = 0, voiceRecordings = 0, documentsUploaded = 0, searchesPerformed = 0,
      dailyUsage = [], productivityScore_ua = 0, streakDays = 0, level = 1, xp = 0,
      peakUsageHours = [], averageSessionDuration = 0, totalTimeSpent = 0,
      averageContentLength = 0, lastActiveDate = now, accountCreatedDate = now,
      totalSessions = 0, averageItemsPerSession = 0\<rparr>"

definition createInitialAnalytics :: "env \<Rightarrow> db \<Rightarrow> error + db" where
  "createInitialAnalytics e d = saveUserAnalytics e (initialAnalytics (clock e)) d"

definition initialize :: "env \<Rightarrow> service \<Rightarrow> error + service" where
  "initialize e s =
     (if initialized s then Inr s
      else let existingAnalytics = getUserAnalytics e (storageService s)
           in case (if existingAnalytics = None then createInitialAnalytics e (storageService s)
                    else Inr (storageService s)) of
                Inl err \<Rightarrow> Inl err
              | Inr d \<Rightarrow> Inr (s\<lparr>storageService := d, initialized := True\<rparr>))"

definition ensureInitialized :: "env \<Rightarrow> service \<Rightarrow> error + service" where
  "ensureInitialized e s = (if \<not> initialized s then initialize e s else Inr s)"

definition trackEvent :: "env \<Rightarrow> EventType \<Rightarrow> EventData \<Rightarrow> service \<Rightarrow> error + service" where
  "trackEvent e ty dat s =
     (case ensureInitialized e s of
        Inl err \<Rightarrow> Inl err
      | Inr s' \<Rightarrow> Inr (s'\<lparr>storageService := trackEvent_storage e ty dat (storageService s')\<rparr>))"

subsection \<open>Snapshot recomputation\<close>

text \<open>\<open>calculateAverageSessionDuration\<close>: the \<open>Map\<close> from session id to its first and
  latest timestamp, in insertion order.\<close>

fun session_spans ::
  "AnalyticsEvent list \<Rightarrow> (string \<times> Date \<times> Date) list \<Rightarrow> (string \<times> Date \<times> Date) list" where
  "session_spans [] sessions = sessions"
| "session_spans (event # rest) sessions =
     (case map_of sessions (sessionId event) of
        None \<Rightarrow>
          session_spans rest (sessions @ [(sessionId event, timestamp event, timestamp event)])
      | Some (start, stop) \<Rightarrow>
          (if timestamp event > stop
           then session_spans rest
                  (map (\<lambda>(k, v). if k = sessionId event then (k, start, timestamp event) else (k, v))
                     sessions)
           else session_spans rest sessions))"

definition calculateAverageSessionDuration :: "AnalyticsEvent list \<Rightarrow> real" where
  "calculateAverageSessionDuration evs =
     (let sessions = session_spans evs [];
          durations = map (\<lambda>(k, start, stop).
                             fdiv (fsub (real_of_int stop) (real_of_int start)) (1000 * 60))
                        sessions
      in if length durations > 0
         then fdiv (foldl (\<lambda>sum d. fadd sum d) 0 durations) (real (length durations))
         else 0)"

definition calculateExperiencePoints :: "real \<Rightarrow> real \<Rightarrow> real" where
  "calculateExperiencePoints totalItems' totalEvents =
     fadd (fmul totalItems' 100) (fmul totalEvents 10)"

definition calculateUserLevel :: "real \<Rightarrow> real \<Rightarrow> real" where
  "calculateUserLevel totalItems' totalEvents =
     (let xp' = calculateExperiencePoints totalItems' totalEvents
      in fadd (of_int \<lfloor>fdiv xp' 1000\<rfloor>) 1)"

definition getAccountCreatedDate :: "env \<Rightarrow> db \<Rightarrow> Date" where
  "getAccountCreatedDate e d =
     (case getEvents e \<lparr>dateRange = None, limit = Some 1\<rparr> d of
        [] \<Rightarrow> clock e
      | first # _ \<Rightarrow> timestamp first)"

text \<open>
  \<open>AnalyticsService.updateUserAnalytics\<close>. The result pairs the service state after the
  call with the error thrown or the snapshot returned. \<open>calculateCurrentStreak\<close> sorts
  its argument in place, so the \<open>dailyUsage\<close> array of the snapshot ends sorted by date,
  descending; the score is computed before that sort and the total time after it.
\<close>

definition recomputed :: "env \<Rightarrow> ContentItem list \<Rightarrow> db \<Rightarrow> UserAnalytics" where
  \<comment> \<open>the two reads and the object literal \<open>analytics\<close> of \<open>updateUserAnalytics\<close>\<close>
  "recomputed e contentItems d =
     (let now = clock e;
          evs = getEvents e \<lparr>dateRange = Some (now - 90 * msPerDay, now), limit = None\<rparr> d;
          dailyUsage' = getDailyUsageRange e (now - 30 * msPerDay) now d;
          sessions = remdups (map sessionId evs)
      in \<lparr>totalItems = real (length contentItems),
          voiceRecordings = real (length (filter (\<lambda>item. type_item item = voice_item) contentItems)),
          documentsUploaded = real (length (filter (\<lambda>item. type_item item = file_item) contentItems)),
          searchesPerformed = real (length (filter (\<lambda>event. type_ev event = search_performed) evs)),
          dailyUsage = sortByDateDesc dailyUsage',
          productivityScore_ua = calculateProductivityScore dailyUsage' contentItems,
          streakDays = real (calculateCurrentStreak (tz e) now dailyUsage'),
          level = calculateUserLevel (real (length contentItems)) (real (length evs)),
          xp = calculateExperiencePoints (real (length contentItems)) (real (length evs)),
          peakUsageHours = analyzePeakUsageHours (tz e) evs,
          averageSessionDuration = calculateAverageSessionDuration evs,
          totalTimeSpent = foldl (\<lambda>sum day. fadd sum (timeSpent day)) 0 (sortByDateDesc dailyUsage'),
          averageContentLength =
            (if length contentItems > 0
             then fdiv (foldl (\<lambda>sum item. fadd sum (real (length (content item)))) 0 contentItems)
                       (real (length contentItems))
             else 0),
          lastActiveDate = now,
          accountCreatedDate = getAccountCreatedDate e d,
          totalSessions = real (length sessions),
          averageItemsPerSession =
            (if length contentItems > 0 \<and> length evs > 0
             then fdiv (real (length contentItems)) (real (length sessions))
             else 0)\<rparr>)"

definition updateUserAnalytics ::
  "env \<Rightarrow> ContentItem list \<Rightarrow> service \<Rightarrow> service \<times> (error + UserAnalytics)" where
  "updateUserAnalytics e contentItems s =
     (case ensureInitialized e s of
        Inl err \<Rightarrow> (s, Inl err)
      | Inr s1 \<Rightarrow>
          (let d = storageService s1;
               analytics = recomputed e contentItems d
           in case saveUserAnalytics e analytics d of
                Inl err \<Rightarrow> (s1, Inl err)
              | Inr d' \<Rightarrow> (s1\<lparr>storageService := d'\<rparr>, Inr analytics)))"

definition getUserAnalytics_service :: "env \<Rightarrow> service \<Rightarrow> error + (service \<times> UserAnalytics option)" where
  \<comment> \<open>\<open>AnalyticsService.getUserAnalytics\<close>\<close>
  "getUserAnalytics_service e s =
     (case ensureInitialized e s of
        Inl err \<Rightarrow> Inl err
      | Inr s1 \<Rightarrow> Inr (s1, getUserAnalytics e (storageService s1)))"

section \<open>Collector (AnalyticsCollectionService)\<close>

record BufferedEvent =
  type_buf :: EventType
  data_buf :: EventData
  timestamp_buf :: Date

record collector =
  analyticsService :: service
  activityBuffer :: "BufferedEvent list"
  lastActivityTime :: Date

text \<open>
  The \<open>for (const event of eventsToFlush)\<close> loop of \<open>flushActivityBuffer\<close>. The \<open>i\<close>-th
  awaited \<open>trackEvent\<close> call runs in environment \<open>envs i\<close>. The result is the service state
  reached and whether an exception left the loop.
\<close>

fun flush_loop :: "(nat \<Rightarrow> env) \<Rightarrow> nat \<Rightarrow> BufferedEvent list \<Rightarrow> service \<Rightarrow> service \<times> bool" where
  "flush_loop envs i [] s = (s, False)"
| "flush_loop envs i (event # rest) s =
     (case trackEvent (envs i) (type_buf event) (data_buf event) s of
        Inl err \<Rightarrow> (s, True)
      | Inr s' \<Rightarrow> flush_loop envs (i + 1) rest s')"

text \<open>
  The \<open>try\<close>/\<open>catch\<close> of \<open>flushActivityBuffer\<close>, entered after the buffer was swapped for an
  empty one: the live buffer of \<open>c\<close> holds whatever was buffered since the swap. The
  \<open>catch\<close> logs and puts the whole batch back in front (\<open>unshift\<close>).
\<close>

definition flush_try :: "(nat \<Rightarrow> env) \<Rightarrow> BufferedEvent list \<Rightarrow> collector \<Rightarrow> collector" where
  "flush_try envs eventsToFlush c =
     (case flush_loop envs 0 eventsToFlush (analyticsService c) of
        (s', False) \<Rightarrow> c\<lparr>analyticsService := s'\<rparr>
      | (s', True) \<Rightarrow>
          c\<lparr>analyticsService := s', activityBuffer := eventsToFlush @ activityBuffer c\<rparr>)"

definition flushActivityBuffer :: "(nat \<Rightarrow> env) \<Rightarrow> collector \<Rightarrow> collector" where
  "flushActivityBuffer envs c =
     (if length (activityBuffer c) = 0 then c
      else let eventsToFlush = activityBuffer c;
               c1 = c\<lparr>activityBuffer := []\<rparr>
           in flush_try envs eventsToFlush c1)"

definition bufferEvent ::
  "Date \<Rightarrow> (nat \<Rightarrow> env) \<Rightarrow> EventType \<Rightarrow> EventData \<Rightarrow> collector \<Rightarrow> collector" where
  \<comment> \<open>\<open>envs\<close> is the environment of the flush that the call may trigger\<close>
  "bufferEvent now envs ty dat c =
     (let c1 = c\<lparr>lastActivityTime := now,
                  activityBuffer := activityBuffer c
                     @ [\<lparr>type_buf = ty, data_buf = dat, timestamp_buf = now\<rparr>]\<rparr>
      in if length (activityBuffer c1) \<ge> 10 then flushActivityBuffer envs c1 else c1)"

text \<open>A run of the Collector: \<open>track*()\<close> calls and timer ticks, in order.\<close>

datatype collector_op =
    Track Date "nat \<Rightarrow> env" EventType EventData
  | Tick "nat \<Rightarrow> env"

fun step :: "collector_op \<Rightarrow> collector \<Rightarrow> collector" where
  "step (Track now envs ty dat) c = bufferEvent now envs ty dat c"
| "step (Tick envs) c = flushActivityBuffer envs c"

fun run :: "collector_op list \<Rightarrow> collector \<Rightarrow> collector" where
  "run [] c = c"
| "run (op # ops) c = run ops (step op c)"

fun is_Track :: "collector_op \<Rightarrow> bool" where
  "is_Track (Track now envs ty dat) = True"
| "is_Track (Tick envs) = False"

definition tracked :: "collector_op list \<Rightarrow> nat" where
  "tracked ops = length (filter is_Track ops)"

definition delivered :: "collector \<Rightarrow> nat" where
  \<comment> \<open>the number of events in the Event Store\<close>
  "delivered c = length (events_tbl (storageService (analyticsService c)))"

definition buffered :: "collector \<Rightarrow> nat" where
  "buffered c = length (activityBuffer c)"

text \<open>Tracking a list of events in quick succession: one \<open>track*()\<close> call per entry, no
  timer tick in between.\<close>

definition buffered_of :: "Date \<times> EventType \<times> EventData \<Rightarrow> BufferedEvent" where
  "buffered_of x = (case x of (now, ty, dat) \<Rightarrow> \<lparr>type_buf = ty, data_buf = dat, timestamp_buf = now\<rparr>)"

definition track_ops :: "(nat \<Rightarrow> env) \<Rightarrow> (Date \<times> EventType \<times> EventData) list \<Rightarrow> collector_op list" where
  "track_ops envs evs = map (\<lambda>x. case x of (now, ty, dat) \<Rightarrow> Track now envs ty dat) evs"

definition stored_types :: "collector \<Rightarrow> EventType list" where
  "stored_types c = map type_ev (events_tbl (storageService (analyticsService c)))"

subsection \<open>Real-time productivity metrics of the Collector\<close>

definition calculateQuickProductivityScore :: "DailyUsageData \<Rightarrow> real" where
  "calculateQuickProductivityScore dailyUsage' =
     (let score0 = 0;
          score1 = fadd score0 (min (fmul (itemsCreated dailyUsage') 10) 40);
          score2 = fadd score1 (min (fmul (searchCount dailyUsage') 2) 20);
          score3 = fadd score2 (min (fmul (fdiv (timeSpent dailyUsage') 60) 10) 20);
          score4 = fadd score3 (if itemsCreated dailyUsage' > 0 then 20 else 0)
      in min (of_int (round score4)) 100)"

datatype ActivityType = voice_recording | file_upload

text \<open>The updates that \<open>updateProductivityMetrics\<close> makes to its copy of today's row.\<close>

definition activity_update :: "ActivityType \<Rightarrow> real \<Rightarrow> DailyUsageData \<Rightarrow> DailyUsageData" where
  "activity_update activityType dur todayUsage =
     (let u1 = (case activityType of
                  voice_recording \<Rightarrow>
                    todayUsage\<lparr>recordingMinutes := fadd (recordingMinutes todayUsage) (fdiv dur 60),
                               itemsCreated := fadd (itemsCreated todayUsage) 1\<rparr>
                | file_upload \<Rightarrow>
                    todayUsage\<lparr>documentsProcessed := fadd (documentsProcessed todayUsage) 1,
                               itemsCreated := fadd (itemsCreated todayUsage) 1\<rparr>);
          u2 = u1\<lparr>timeSpent := fadd (timeSpent u1) (fdiv dur 60)\<rparr>;
          newScore = calculateQuickProductivityScore u2
      in u2\<lparr>productivityScore := newScore\<rparr>)"

text \<open>
  \<open>updateProductivityMetrics\<close> reads the snapshot, updates its copy of today's row (the
  first row of the snapshot whose date prints the same local day as the clock) and then
  calls \<open>AnalyticsService.updateUserAnalytics\<close> with an object literal where that method
  expects the array of content items: after \<open>ensureInitialized\<close> and the reads,
  \<open>contentItems.filter\<close> is not a function, the \<open>TypeError\<close> is caught and logged by
  \<open>updateProductivityMetrics\<close>, and nothing is saved. The second component of the result
  is the updated copy of today's row, when there is one.
\<close>

definition updateProductivityMetrics ::
  "env \<Rightarrow> ActivityType \<Rightarrow> real \<Rightarrow> collector \<Rightarrow> collector \<times> DailyUsageData option" where
  "updateProductivityMetrics e activityType dur c =
     (case getUserAnalytics_service e (analyticsService c) of
        Inl err \<Rightarrow> (c, None)
      | Inr (s1, None) \<Rightarrow> (c\<lparr>analyticsService := s1\<rparr>, None)
      | Inr (s1, Some userAnalytics) \<Rightarrow>
          (case find (\<lambda>usage. localDay (tz e) (date usage) = localDay (tz e) (clock e))
                  (dailyUsage userAnalytics) of
             None \<Rightarrow> (c\<lparr>analyticsService := s1\<rparr>, None)
           | Some todayUsage \<Rightarrow>
               (c\<lparr>analyticsService := s1\<rparr>, Some (activity_update activityType dur todayUsage))))"

section \<open>Gamification Engine (GamificationService)\<close>

subsection \<open>Storage methods used by the engine\<close>

record GoalUpdates =
  \<comment> \<open>the \<open>Partial<Goal>\<close> objects that the callers build\<close>
  u_current :: "real option"
  u_status :: "GoalStatus option"

definition getGoals :: "env \<Rightarrow> GoalStatus option \<Rightarrow> db \<Rightarrow> Goal list" where
  \<comment> \<open>a failed read is logged and answered with the empty list\<close>
  "getGoals e status' d =
     (if readable e
      then (case status' of
              Some st \<Rightarrow> filter (\<lambda>g. status g = st) (goals_tbl d)
            | None \<Rightarrow> goals_tbl d)
      else [])"

definition apply_updates :: "GoalUpdates \<Rightarrow> Goal \<Rightarrow> Goal" where
  "apply_updates updates g =
     (let g1 = (case u_current updates of Some v \<Rightarrow> g\<lparr>current := v\<rparr> | None \<Rightarrow> g)
      in case u_status updates of Some st \<Rightarrow> g1\<lparr>status := st\<rparr> | None \<Rightarrow> g1)"

definition updateGoal :: "env \<Rightarrow> string \<Rightarrow> GoalUpdates \<Rightarrow> db \<Rightarrow> error + db" where
  \<comment> \<open>\<open>db.goals.update(goalId, updates)\<close> changes the record with that primary key; a
      failed update is logged and rethrown\<close>
  "updateGoal e goalId' updates d =
     (if writable e
      then let d1 = d\<lparr>goals_tbl :=
                       map (\<lambda>g. if id_goal g = goalId' then apply_updates updates g else g)
                         (goals_tbl d)\<rparr>
           in Inr (if u_status updates = Some completed
                   then trackEvent_storage e goal_completed
                          (noData\<lparr>goalId := Some goalId', currentValue := u_current updates\<rparr>) d1
                   else d1)
      else Inl StoreError)"

fun put_insight :: "ProductivityInsight \<Rightarrow> ProductivityInsight list \<Rightarrow> ProductivityInsight list" where
  "put_insight i [] = [i]"
| "put_insight i (x # xs) = (if id_ins x = id_ins i then i # xs else x # put_insight i xs)"

definition saveInsight :: "env \<Rightarrow> ProductivityInsight \<Rightarrow> db \<Rightarrow> error + db" where
  "saveInsight e insight d =
     (if writable e then Inr (d\<lparr>insights_tbl := put_insight insight (insights_tbl d)\<rparr>)
      else Inl StoreError)"

definition getInsights :: "env \<Rightarrow> string \<Rightarrow> db \<Rightarrow> ProductivityInsight list" where
  \<comment> \<open>\<open>getInsights(category)\<close> with a category; a failed read is logged and answered with
      the empty list\<close>
  "getInsights e category d =
     (if readable e then filter (\<lambda>i. category_ins i = category) (insights_tbl d) else [])"

subsection \<open>Achievement catalog\<close>

datatype Rarity = common | rare | epic | legendary

datatype RequirementType = count_req | streak_req | time_req | score_req | combo_req

datatype Timeframe = tf_daily | tf_weekly | tf_monthly | tf_all_time

record AchievementRequirement =
  type_req :: RequirementType
  metric :: string
  value_req :: real
  timeframe :: "Timeframe option"

record AchievementDefinition =
  id_def :: string
  title_def :: string
  category_def :: string
  rarity_def :: Rarity
  requirements :: "AchievementRequirement list"
  xpReward :: real
  hidden :: bool

record Achievement =
  id_ach :: string
  title_ach :: string
  category_ach :: string
  progress :: real
  maxProgress :: real
  unlocked :: bool
  unlockedAt :: Date
  rarity_ach :: Rarity

definition req :: "RequirementType \<Rightarrow> string \<Rightarrow> real \<Rightarrow> AchievementRequirement" where
  "req ty m v = \<lparr>type_req = ty, metric = m, value_req = v, timeframe = None\<rparr>"

definition adef ::
  "string \<Rightarrow> string \<Rightarrow> string \<Rightarrow> Rarity \<Rightarrow> AchievementRequirement list \<Rightarrow> real \<Rightarrow> AchievementDefinition" where
  "adef i t c r rs x = \<lparr>id_def = i, title_def = t, category_def = c, rarity_def = r,
     requirements = rs, xpReward = x, hidden = False\<rparr>"

text \<open>The catalog of \<open>initializeAchievements\<close>, in the insertion order of the \<open>Map\<close>.\<close>

definition achievementDefinitions :: "AchievementDefinition list" where
  "achievementDefinitions =
     [adef ''first_voice_note'' ''First Words'' ''Getting Started'' common
        [req count_req ''voice_recordings'' 1] 100,
      adef ''first_file_upload'' ''Digital Packrat'' ''Getting Started'' common
        [req count_req ''file_uploads'' 1] 100,
      adef ''first_search'' ''Seeker'' ''Getting Started'' common
        [req count_req ''searches'' 1] 50,
      adef ''voice_enthusiast'' ''Voice Enthusiast'' ''Content Creation'' common
        [req count_req ''voice_recordings'' 10] 250,
      adef ''content_creator'' ''Content Creator'' ''Content Creation'' rare
        [req count_req ''total_items'' 50] 500,
      adef ''prolific_creator'' ''Prolific Creator'' ''Content Creation'' epic
        [req count_req ''total_items'' 100] 1000,
      adef ''consistent_user'' ''Consistent User'' ''Consistency'' rare
        [req streak_req ''daily_usage'' 7] 300,
      adef ''dedication_master'' ''Dedication Master'' ''Consistency'' epic
        [req streak_req ''daily_usage'' 30] 1500,
      adef ''legendary_dedication'' ''Legendary Dedication'' ''Consistency'' legendary
        [req streak_req ''daily_usage'' 100] 5000,
      adef ''productivity_novice'' ''Productivity Novice'' ''Productivity'' common
        [req score_req ''productivity_score'' 70] 200,
      adef ''efficiency_expert'' ''Efficiency Expert'' ''Productivity'' rare
        [req score_req ''productivity_score'' 90] 500,
      adef ''productivity_legend'' ''Productivity Legend'' ''Productivity'' legendary
        [(req score_req ''productivity_score'' 90)\<lparr>timeframe := Some tf_weekly\<rparr>] 2000,
      adef ''search_explorer'' ''Search Explorer'' ''Discovery'' common
        [req count_req ''searches'' 50] 300,
      adef ''information_hunter'' ''Information Hunter'' ''Discovery'' rare
        [req score_req ''search_success_rate'' 90] 400,
      adef ''marathon_session'' ''Marathon Session'' ''Engagement'' rare
        [req time_req ''session_duration'' 120] 350,
      adef ''time_investor'' ''Time Investor'' ''Engagement'' epic
        [req time_req ''total_time'' 3000] 800,
      (adef ''early_bird'' ''Early Bird'' ''Special'' rare
        [req combo_req ''early_usage'' 1] 200)\<lparr>hidden := True\<rparr>,
      (adef ''night_owl'' ''Night Owl'' ''Special'' rare
        [req combo_req ''late_usage'' 1] 200)\<lparr>hidden := True\<rparr>,
      adef ''perfectionist'' ''Perfectionist'' ''Special'' epic
        [req combo_req ''perfect_week'' 1] 1000]"

subsection \<open>XP and levels\<close>

text \<open>
  The engine's own fields; \<open>storage\<close> is the shared store. The result of a method pairs
  the state it leaves with the error it throws or the value it returns.
\<close>

record gamification =
  storage :: db
  userLevel :: real
  userXP :: real

definition calculateLevel :: "real \<Rightarrow> real option" where
  \<comment> \<open>\<open>Math.floor(Math.sqrt(xp / 100)) + 1\<close>; \<open>None\<close> is the \<open>NaN\<close> of a negative \<open>xp\<close>\<close>
  "calculateLevel x =
     (if x < 0 then None else Some (fadd (of_int \<lfloor>fsqrt (fdiv x 100)\<rfloor>) 1))"

definition awardXP :: "env \<Rightarrow> real \<Rightarrow> gamification \<Rightarrow> gamification \<times> (error + (real option \<times> bool))" where
  \<comment> \<open>the \<open>reason\<close> argument is not used by the method\<close>
  "awardXP e amount g =
     (let currentLevel = userLevel g;
          g1 = g\<lparr>userXP := fadd (userXP g) amount\<rparr>;
          newLevel = calculateLevel (userXP g1);
          leveledUp = (case newLevel of Some n \<Rightarrow> n > currentLevel | None \<Rightarrow> False);
          g2 = (case newLevel of
                  Some n \<Rightarrow>
                    (if n > currentLevel
                     then g1\<lparr>userLevel := n,
                             storage := trackEvent_storage e achievement_unlocked
                               (noData\<lparr>goalId := Some (''level_'' @ string_of_nat (nat \<lfloor>n\<rfloor>)),
                                       currentValue := Some n\<rparr>)
                               (storage g1)\<rparr>
                     else g1)
                | None \<Rightarrow> g1)
      in case getUserAnalytics e (storage g2) of
           None \<Rightarrow> (g2, Inr (newLevel, leveledUp))
         | Some userAnalytics \<Rightarrow>
             (case saveUserAnalytics e
                     (userAnalytics\<lparr>xp := userXP g2, level := userLevel g2\<rparr>)
                     (storage g2) of
                Inl err \<Rightarrow> (g2, Inl err)
              | Inr d \<Rightarrow> (g2\<lparr>storage := d\<rparr>, Inr (newLevel, leveledUp))))"

subsection \<open>Unlocking\<close>

definition unlockAchievement ::
  "env \<Rightarrow> Achievement \<Rightarrow> real \<Rightarrow> gamification \<Rightarrow> gamification \<times> (error + unit)" where
  "unlockAchievement e achievement xpReward' g =
     (case saveInsight e
             \<lparr>id_ins = ''achievement_'' @ id_ach achievement, type_ins = productivity_trend,
              title_ins = ''Achievement Unlocked: '' @ title_ach achievement, impact = high,
              category_ins = ''Achievements'', actionable = False, relatedMetrics = []\<rparr>
             (storage g) of
        Inl err \<Rightarrow> (g, Inl err)
      | Inr d \<Rightarrow>
          (case awardXP e xpReward' (g\<lparr>storage := d\<rparr>) of
             (g1, Inl err) \<Rightarrow> (g1, Inl err)
           | (g1, Inr r) \<Rightarrow>
               (g1\<lparr>storage := trackEvent_storage e achievement_unlocked
                                 (noData\<lparr>goalId := Some (id_ach achievement),
                                         currentValue := Some xpReward'\<rparr>)
                                 (storage g1)\<rparr>,
                Inr ())))"

text \<open>\<open>s.replace(pattern, replacement)\<close> with a string pattern: the first occurrence.\<close>

fun replace_first :: "string \<Rightarrow> string \<Rightarrow> string \<Rightarrow> string" where
  "replace_first pat rep [] = (if pat = [] then rep else [])"
| "replace_first pat rep (c # cs) =
     (if prefix pat (c # cs) then rep @ drop (length pat) (c # cs)
      else c # replace_first pat rep cs)"

definition getUnlockedAchievements :: "env \<Rightarrow> db \<Rightarrow> Achievement list" where
  \<comment> \<open>\<open>unlockedAt\<close> is the insight's generation date, which the model does not keep\<close>
  "getUnlockedAchievements e d =
     map (\<lambda>insight.
            \<lparr>id_ach = replace_first ''achievement_'' [] (id_ins insight),
             title_ach = replace_first ''Achievement Unlocked: '' [] (title_ins insight),
             category_ach = ''Achievement'', progress = 100, maxProgress = 100,
             unlocked = True, unlockedAt = 0, rarity_ach = common\<rparr>)
         (getInsights e ''Achievements'' d)"

subsection \<open>Goal progress\<close>

definition calculateGoalXP :: "Goal \<Rightarrow> real" where
  "calculateGoalXP goal =
     (let baseXP = 100;
          difficultyMultiplier = max 1 (fdiv (target goal) 10);
          priorityMultiplier = (case priority goal of high \<Rightarrow> 1.5 | medium \<Rightarrow> rnd 1.2 | low \<Rightarrow> 1)
      in of_int (round (fmul (fmul baseXP difficultyMultiplier) priorityMultiplier)))"

definition checkGoalAchievements :: "env \<Rightarrow> Goal \<Rightarrow> gamification \<Rightarrow> gamification \<times> (error + unit)" where
  "checkGoalAchievements e completedGoal g =
     (let allGoals = getGoals e None (storage g);
          completedGoals = filter (\<lambda>x. status x = completed) allGoals
      in case (if length completedGoals = 1
               then unlockAchievement e
                      \<lparr>id_ach = ''first_goal'', title_ach = ''Goal Getter'', category_ach = ''Goals'',
                       progress = 1, maxProgress = 1, unlocked = True, unlockedAt = clock e,
                       rarity_ach = common\<rparr> 150 g
               else (g, Inr ())) of
           (g1, Inl err) \<Rightarrow> (g1, Inl err)
         | (g1, Inr r) \<Rightarrow>
             (if length completedGoals = 10
              then unlockAchievement e
                     \<lparr>id_ach = ''goal_master'', title_ach = ''Goal Master'', category_ach = ''Goals'',
                      progress = 10, maxProgress = 10, unlocked = True, unlockedAt = clock e,
                      rarity_ach = rare\<rparr> 500 g1
              else (g1, Inr ())))"

definition updateGoalProgress ::
  "env \<Rightarrow> string \<Rightarrow> real \<Rightarrow> gamification \<Rightarrow> gamification \<times> (error + bool)" where
  "updateGoalProgress e goalId' currentValue' g =
     (let goals = getGoals e None (storage g)
      in case find (\<lambda>x. id_goal x = goalId') goals of
           None \<Rightarrow> (g, Inr False)
         | Some goal \<Rightarrow>
             (let wasCompleted = (status goal = completed);
                  updates = \<lparr>u_current = Some currentValue', u_status = None\<rparr>
              in if currentValue' \<ge> target goal \<and> \<not> wasCompleted
                 then (let updates' = updates\<lparr>u_status := Some completed\<rparr>;
                           xpReward' = calculateGoalXP goal
                       in case awardXP e xpReward' g of
                            (g1, Inl err) \<Rightarrow> (g1, Inl err)
                          | (g1, Inr r) \<Rightarrow>
                              (let g2 = g1\<lparr>storage :=
                                            trackEvent_storage e goal_completed
                                              (noData\<lparr>goalId := Some (id_goal goal),
                                                      currentValue := Some currentValue'\<rparr>)
                                              (storage g1)\<rparr>
                               in case checkGoalAchievements e goal g2 of
                                    (g3, Inl err) \<Rightarrow> (g3, Inl err)
                                  | (g3, Inr r') \<Rightarrow>
                                      (case updateGoal e goalId' updates' (storage g3) of
                                         Inl err \<Rightarrow> (g3, Inl err)
                                       | Inr d \<Rightarrow> (g3\<lparr>storage := d\<rparr>, Inr True))))
                 else (case updateGoal e goalId' updates (storage g) of
                         Inl err \<Rightarrow> (g, Inl err)
                       | Inr d \<Rightarrow> (g\<lparr>storage := d\<rparr>, Inr False))))"

text \<open>The pass-through of the Aggregator, \<open>AnalyticsService.updateGoalProgress\<close>: no XP, and
  no test of the status the goal had.\<close>

definition updateGoalProgress_service ::
  "env \<Rightarrow> string \<Rightarrow> real \<Rightarrow> service \<Rightarrow> service \<times> (error + unit)" where
  "updateGoalProgress_service e goalId' currentValue' s =
     (case ensureInitialized e s of
        Inl err \<Rightarrow> (s, Inl err)
      | Inr s1 \<Rightarrow>
          (let goals = getGoals e None (storageService s1)
           in case find (\<lambda>x. id_goal x = goalId') goals of
                None \<Rightarrow> (s1, Inr ())
              | Some goal \<Rightarrow>
                  (let updates = \<lparr>u_current = Some currentValue',
                                  u_status = (if currentValue' \<ge> target goal then Some completed
                                              else None)\<rparr>
                   in case updateGoal e goalId' updates (storageService s1) of
                        Inl err \<Rightarrow> (s1, Inl err)
                      | Inr d \<Rightarrow> (s1\<lparr>storageService := d\<rparr>, Inr ()))))"

definition goal_completed_events :: "string \<Rightarrow> db \<Rightarrow> nat" where
  \<comment> \<open>how many \<open>goal_completed\<close> events of a goal the store holds\<close>
  "goal_completed_events goalId' d =
     length (filter (\<lambda>ev. type_ev ev = goal_completed \<and> goalId (data ev) = Some goalId')
               (events_tbl d))"

definition goal_rewards :: "db \<Rightarrow> real list" where
  \<comment> \<open>the rewards of the goal-count achievements that \<open>checkGoalAchievements\<close> unlocks\<close>
  "goal_rewards d =
     (let n = length (filter (\<lambda>x. status x = completed) (goals_tbl d))
      in (if n = 1 then [150] else []) @ (if n = 10 then [500] else []))"

subsection \<open>Achievement evaluation\<close>

definition is_daily :: "GoalType \<Rightarrow> bool" where
  \<comment> \<open>\<open>goal.type.includes('daily')\<close>\<close>
  "is_daily ty = (ty = daily_recordings \<or> ty = daily_uploads \<or> ty = daily_searches)"

definition checkPerfectWeek :: "env \<Rightarrow> gamification \<Rightarrow> bool" where
  \<comment> \<open>\<open>weekAgo.setDate(weekAgo.getDate() - 7)\<close>: the same local time, seven days earlier\<close>
  "checkPerfectWeek e g =
     (let goals = getGoals e (Some completed) (storage g);
          weekAgo = UTC (tz e) (LocalTime (tz e) (clock e) - 7 * msPerDay);
          recentCompletedGoals =
            filter (\<lambda>goal. is_daily (type_goal goal) \<and> createdDate goal \<ge> weekAgo) goals
      in length recentCompletedGoals \<ge> 7)"

definition getMetricValue ::
  "env \<Rightarrow> AchievementRequirement \<Rightarrow> UserAnalytics \<Rightarrow> AnalyticsEvent list \<Rightarrow> gamification \<Rightarrow> real" where
  "getMetricValue e requirement userAnalytics evs g =
     (if metric requirement = ''voice_recordings'' then voiceRecordings userAnalytics
      else if metric requirement = ''file_uploads'' then documentsUploaded userAnalytics
      else if metric requirement = ''total_items'' then totalItems userAnalytics
      else if metric requirement = ''searches'' then searchesPerformed userAnalytics
      else if metric requirement = ''productivity_score'' then productivityScore_ua userAnalytics
      else if metric requirement = ''daily_usage'' then streakDays userAnalytics
      else if metric requirement = ''search_success_rate'' then
        (let searchEvents = filter (\<lambda>x. type_ev x = search_performed) evs;
             successfulSearches = filter (\<lambda>x. orZero (resultsCount (data x)) > 0) searchEvents
         in if length searchEvents > 0
            then fmul (fdiv (real (length successfulSearches)) (real (length searchEvents))) 100
            else 0)
      else if metric requirement = ''session_duration'' then averageSessionDuration userAnalytics
      else if metric requirement = ''total_time'' then totalTimeSpent userAnalytics
      else if metric requirement = ''early_usage'' then
        (if list_ex (\<lambda>x. getHours (tz e) (timestamp x) < 7) evs then 1 else 0)
      else if metric requirement = ''late_usage'' then
        (if list_ex (\<lambda>x. getHours (tz e) (timestamp x) \<ge> 23) evs then 1 else 0)
      else if metric requirement = ''perfect_week'' then
        (if checkPerfectWeek e g then 1 else 0)
      else 0)"

text \<open>The loop of \<open>checkAchievementRequirements\<close>: \<open>false\<close> at the first requirement whose
  metric is below its value.\<close>

fun requirements_loop ::
  "env \<Rightarrow> AchievementRequirement list \<Rightarrow> UserAnalytics \<Rightarrow> AnalyticsEvent list \<Rightarrow> gamification \<Rightarrow> bool" where
  "requirements_loop e [] userAnalytics evs g = True"
| "requirements_loop e (requirement # rest) userAnalytics evs g =
     (let currentValue' = getMetricValue e requirement userAnalytics evs g
      in if currentValue' < value_req requirement then False
         else requirements_loop e rest userAnalytics evs g)"

definition checkAchievementRequirements ::
  "env \<Rightarrow> AchievementDefinition \<Rightarrow> UserAnalytics \<Rightarrow> AnalyticsEvent list \<Rightarrow> gamification \<Rightarrow> bool" where
  "checkAchievementRequirements e definition' userAnalytics evs g =
     requirements_loop e (requirements definition') userAnalytics evs g"

text \<open>
  The loop of \<open>checkAchievements\<close> over the catalog. \<open>existingIds\<close> is read once, before the
  loop. \<open>definition.requirements[0]\<close> of a definition without requirements is
  \<open>undefined\<close>, and reading its \<open>value\<close> is a \<open>TypeError\<close>.
\<close>

fun check_loop ::
  "env \<Rightarrow> UserAnalytics \<Rightarrow> AnalyticsEvent list \<Rightarrow> string list \<Rightarrow> AchievementDefinition list
     \<Rightarrow> gamification \<Rightarrow> Achievement list \<Rightarrow> gamification \<times> (error + Achievement list)" where
  "check_loop e userAnalytics evs existingIds [] g newAchievements = (g, Inr newAchievements)"
| "check_loop e userAnalytics evs existingIds (definition' # rest) g newAchievements =
     (if id_def definition' \<in> set existingIds
      then check_loop e userAnalytics evs existingIds rest g newAchievements
      else if checkAchievementRequirements e definition' userAnalytics evs g
      then (case requirements definition' of
              [] \<Rightarrow> (g, Inl TypeError)
            | r0 # _ \<Rightarrow>
                (let achievement =
                       \<lparr>id_ach = id_def definition', title_ach = title_def definition',
                        category_ach = category_def definition', progress = value_req r0,
                        maxProgress = value_req r0, unlocked = True, unlockedAt = clock e,
                        rarity_ach = rarity_def definition'\<rparr>
                 in case unlockAchievement e achievement (xpReward definition') g of
                      (g1, Inl err) \<Rightarrow> (g1, Inl err)
                    | (g1, Inr r) \<Rightarrow>
                        check_loop e userAnalytics evs existingIds rest g1
                          (newAchievements @ [achievement])))
      else check_loop e userAnalytics evs existingIds rest g newAchievements)"

definition checkAchievements ::
  "env \<Rightarrow> UserAnalytics \<Rightarrow> AnalyticsEvent list \<Rightarrow> gamification
     \<Rightarrow> gamification \<times> (error + Achievement list)" where
  "checkAchievements e userAnalytics evs g =
     (let existingAchievements = getUnlockedAchievements e (storage g);
          existingIds = map id_ach existingAchievements
      in check_loop e userAnalytics evs existingIds achievementDefinitions g [])"

text \<open>What the properties speak of: the ids that the store records as unlocked, whether
  every requirement of a definition is met, and the ids a call returns.\<close>

definition unlocked_in :: "ProductivityInsight list \<Rightarrow> string set" where
  \<comment> \<open>the achievement ids that a table of insights records as unlocked\<close>
  "unlocked_in tbl =
     set (map (\<lambda>i. replace_first ''achievement_'' [] (id_ins i))
            (filter (\<lambda>i. category_ins i = ''Achievements'') tbl))"

definition all_requirements_met ::
  "env \<Rightarrow> AchievementDefinition \<Rightarrow> UserAnalytics \<Rightarrow> AnalyticsEvent list \<Rightarrow> gamification \<Rightarrow> bool" where
  "all_requirements_met e d userAnalytics evs g =
     list_all (\<lambda>r. getMetricValue e r userAnalytics evs g \<ge> value_req r) (requirements d)"

definition unlocked_ids :: "env \<Rightarrow> gamification \<Rightarrow> string set" where
  \<comment> \<open>the ids that a call of \<open>checkAchievements\<close> reads as already unlocked\<close>
  "unlocked_ids e g = set (map id_ach (getUnlockedAchievements e (storage g)))"

definition newly_unlocked ::
  "env \<Rightarrow> UserAnalytics \<Rightarrow> AnalyticsEvent list \<Rightarrow> gamification \<Rightarrow> AchievementDefinition list" where
  "newly_unlocked e userAnalytics evs g =
     filter (\<lambda>d. id_def d \<notin> unlocked_ids e g \<and> all_requirements_met e d userAnalytics evs g)
       achievementDefinitions"

definition returned_ids :: "gamification \<times> (error + Achievement list) \<Rightarrow> string list" where
  \<comment> \<open>the ids of the achievements that a call of \<open>checkAchievements\<close> returns\<close>
  "returned_ids r = (case snd r of Inl err \<Rightarrow> [] | Inr news \<Rightarrow> map id_ach news)"

section \<open>Example data\<close>

definition emptyRow :: "Date \<Rightarrow> DailyUsageData" where
  "emptyRow d = \<lparr>date = d, recordingMinutes = 0, documentsProcessed = 0, searchCount = 0,
     timeSpent = 0, sessionsCount = 1, itemsCreated = 0, itemsDeleted = 0,
     productivityScore = 0\<rparr>"

definition full_day :: DailyUsageData where
  "full_day = (emptyRow 0)\<lparr>itemsCreated := 5, searchCount := 10, timeSpent := 120\<rparr>"

definition three_days :: "DailyUsageData list" where
  "three_days = [(emptyRow 0)\<lparr>itemsCreated := 1\<rparr>,
                 (emptyRow 86400000)\<lparr>itemsCreated := 1\<rparr>,
                 (emptyRow 172800000)\<lparr>itemsCreated := 1, searchCount := 1\<rparr>]"

definition two_days :: "DailyUsageData list" where
  \<comment> \<open>day scores 67 + 1/6 and 37 + 5/6 over the reals\<close>
  "two_days = [(emptyRow 0)\<lparr>itemsCreated := 3, searchCount := 1, timeSpent := 91\<rparr>,
               (emptyRow 86400000)\<lparr>itemsCreated := 1, searchCount := 2, timeSpent := 23\<rparr>]"

definition empty_db :: db where
  "empty_db = \<lparr>events_tbl = [], daily_records = [], user_analytics_current = None,
     goals_tbl = [], insights_tbl = [], currentSessionId = ''session_1''\<rparr>"

definition fresh_collector :: collector where
  \<comment> \<open>nothing stored, service not yet initialised\<close>
  "fresh_collector = \<lparr>analyticsService = \<lparr>storageService = empty_db, initialized = False\<rparr>,
     activityBuffer = [], lastActivityTime = 0\<rparr>"

definition ready_collector :: collector where
  \<comment> \<open>initial snapshot stored, service initialised\<close>
  "ready_collector =
     \<lparr>analyticsService =
        \<lparr>storageService = empty_db\<lparr>user_analytics_current := Some (initialAnalytics 0)\<rparr>,
         initialized = True\<rparr>,
      activityBuffer = [], lastActivityTime = 0\<rparr>"

definition store_up :: "nat \<Rightarrow> env" where
  "store_up i = \<lparr>clock = 1000 + int i, tz = utc, readable = True, writable = True\<rparr>"

definition store_down :: "nat \<Rightarrow> env" where
  "store_down i = \<lparr>clock = 1000 + int i, tz = utc, readable = False, writable = False\<rparr>"

definition writes_down :: env where
  \<comment> \<open>the store can be read, its writes are rejected\<close>
  "writes_down = \<lparr>clock = 2000, tz = utc, readable = True, writable = False\<rparr>"

definition reads_down :: env where
  \<comment> \<open>the store's reads fail, its writes succeed\<close>
  "reads_down = \<lparr>clock = 3000, tz = utc, readable = False, writable = True\<rparr>"

definition eleven_searches :: "(Date \<times> EventType \<times> EventData) list" where
  "eleven_searches = map (\<lambda>i. (int i, search_performed, noData)) [0..<11]"

definition lost_run :: "collector_op list" where
  \<comment> \<open>one search is tracked, then the timer ticks while the store is unavailable\<close>
  "lost_run = [Track 1000 store_up search_performed noData, Tick store_down]"




definition fifty_items :: UserAnalytics where
  "fifty_items = (initialAnalytics 0)\<lparr>totalItems := 50\<rparr>"

definition challenge_goal :: Goal where
  "challenge_goal = \<lparr>id_goal = ''goal_1'', type_goal = daily_recordings,
     title_goal = ''Voice Note Challenge'', target = 3, current = 0, deadline = 86399999,
     createdDate = 0, status = active, priority = medium, category_goal = ''Daily Challenge''\<rparr>"

definition new_engine :: gamification where
  "new_engine = \<lparr>storage = empty_db, userLevel = 1, userXP = 0\<rparr>"

definition engine_with_goal :: gamification where
  "engine_with_goal = new_engine\<lparr>storage := empty_db\<lparr>goals_tbl := [challenge_goal]\<rparr>\<rparr>"

definition service_with_goal :: service where
  "service_with_goal =
     \<lparr>storageService = empty_db\<lparr>goals_tbl := [challenge_goal],
                                 user_analytics_current := Some (initialAnalytics 0)\<rparr>,
      initialized = True\<rparr>"

text \<open>
  Central European time around the start of daylight saving time on 2024-03-31: the
  offset is one hour before 01:00 UTC of that day and two hours from then on, so the
  local day 2024-03-31 has 23 hours. The rows are dated 2024-03-31 12:00 and 2024-04-01
  09:00 local time, and the clock reads 2024-04-01 12:00 local time.
\<close>

definition berlin :: zone where
  "berlin = \<lparr>tza_utc = (\<lambda>t. if t < 1711846800000 then 3600000 else 7200000),
             tza_local = (\<lambda>t. if t < 1711854000000 then 3600000 else 7200000)\<rparr>"

definition dst_rows :: "DailyUsageData list" where
  "dst_rows = [(emptyRow 1711879200000)\<lparr>itemsCreated := 1\<rparr>,
               (emptyRow 1711954800000)\<lparr>itemsCreated := 2\<rparr>]"

definition dst_now :: Date where
  "dst_now = 1711965600000"

text \<open>
  New York standard time (five hours behind UTC, no transition nearby). The rows are
  those that the store keeps for the UTC days 2024-01-09, 2024-01-10 and 2024-01-11; they
  were created at 10:00 local time on 2024-01-09, at 10:00 on 2024-01-10 and at 20:00 on
  2024-01-10. The clock reads 21:00 local time on 2024-01-10.
\<close>

definition new_york :: zone where
  "new_york = fixed_zone (- 18000000)"

definition evening_rows :: "DailyUsageData list" where
  "evening_rows = [(emptyRow 1704812400000)\<lparr>itemsCreated := 1\<rparr>,
                   (emptyRow 1704898800000)\<lparr>itemsCreated := 2\<rparr>,
                   (emptyRow 1704934800000)\<lparr>itemsCreated := 1\<rparr>]"

definition evening_now :: Date where
  "evening_now = 1704938400000"

text \<open>A service whose store holds two searches and the daily row of their day; one voice
  note exists.\<close>

definition two_searches :: "AnalyticsEvent list" where
  "two_searches =
     [\<lparr>type_ev = search_performed, timestamp = 500, sessionId = ''session_1'', data = noData\<rparr>,
      \<lparr>type_ev = search_performed, timestamp = 600, sessionId = ''session_1'', data = noData\<rparr>]"

definition busy_service :: service where
  "busy_service =
     \<lparr>storageService =
        empty_db\<lparr>events_tbl := two_searches,
                  daily_records := [\<lparr>key_day = 0, timestamp_rec = 500,
                                      data_rec = (emptyRow 500)\<lparr>searchCount := 2\<rparr>\<rparr>]\<rparr>,
      initialized = False\<rparr>"

definition one_note :: "ContentItem list" where
  "one_note = [\<lparr>id_item = ''item_1'', type_item = voice_item, title_item = ''Note'',
                 content = ''hello'', timestamp_item = 400\<rparr>]"

definition busy_after :: service where
  \<comment> \<open>the service after a recomputation with the store reachable\<close>
  "busy_after = fst (updateUserAnalytics (store_up 0) one_note busy_service)"

section \<open>Properties\<close>

subsection \<open>Productivity score\<close>

lemma score_loop_sum:
  "score_loop ds acc = foldl fadd acc (map double_dayScore ds)"
  by (induction ds arbitrary: acc) (simp_all add: double_dayScore_def Let_def)

lemma calculateProductivityScore_nonempty:
  "ds \<noteq> [] \<Longrightarrow> calculateProductivityScore ds items =
     of_int (round (double_mean (map double_dayScore (slice_last 7 ds))))"
  by (simp add: calculateProductivityScore_def Let_def score_loop_sum double_mean_def
      double_sum_def)

text \<open>The arithmetic of the example week is exact in doubles.\<close>

lemma full_day_score:
  "min (fadd (fadd (fadd (fadd 0 (min (fmul 5 10) 40)) (min (fmul 10 2) 20))
                   (min (fmul (fdiv 120 60) 10) 20)) 20) 100 = 100"
  by code_simp

lemma add_hundred:
  "fadd 0 100 = 100 \<and> fadd 100 100 = 200 \<and> fadd 200 100 = 300 \<and> fadd 300 100 = 400 \<and>
   fadd 400 100 = 500 \<and> fadd 500 100 = 600 \<and> fadd 600 100 = 700"
  by code_simp

lemma div_hundreds:
  "fdiv 100 1 = 100 \<and> fdiv 200 2 = 100 \<and> fdiv 300 3 = 100 \<and> fdiv 400 4 = 100 \<and>
   fdiv 500 5 = 100 \<and> fdiv 600 6 = 100 \<and> fdiv 700 7 = 100"
  by code_simp

lemma add_hundred_step: "k < 7 \<Longrightarrow> fadd (100 * real k) 100 = 100 * real (Suc k)"
proof -
  assume "k < 7"
  then consider "k = 0" | "k = 1" | "k = 2" | "k = 3" | "k = 4" | "k = 5" | "k = 6" by linarith
  then show ?thesis using add_hundred by cases simp_all
qed

lemma sum_hundreds:
  "\<forall>x\<in>set xs. x = 100 \<Longrightarrow> k + length xs \<le> 7 \<Longrightarrow>
     foldl fadd (100 * real k) xs = 100 * real (k + length xs)"
proof (induction xs arbitrary: k)
  case Nil
  then show ?case by simp
next
  case (Cons x xs)
  have k: "k < 7" using Cons.prems(2) by simp
  have x: "x = 100" using Cons.prems(1) by simp
  have "foldl fadd (100 * real (Suc k)) xs = 100 * real (Suc k + length xs)"
    using Cons.prems by (intro Cons.IH) simp_all
  then show ?case using add_hundred_step[OF k] x by simp
qed

lemma mean_hundreds: "0 < n \<Longrightarrow> n \<le> 7 \<Longrightarrow> fdiv (100 * real n) (real n) = 100"
proof -
  assume "0 < n" "n \<le> 7"
  then consider "n = 1" | "n = 2" | "n = 3" | "n = 4" | "n = 5" | "n = 6" | "n = 7" by linarith
  then show ?thesis using div_hundreds by cases simp_all
qed

lemma calculateProductivityScore_full_days:
  assumes ne: "ds \<noteq> []"
      and full: "\<forall>d\<in>set ds. itemsCreated d = 5 \<and> searchCount d = 10 \<and> timeSpent d = 120"
  shows "calculateProductivityScore ds items = 100"
proof -
  let ?r = "slice_last 7 ds"
  have sub: "set ?r \<subseteq> set ds" by (simp add: slice_last_def set_drop_subset)
  have ne': "?r \<noteq> []" using ne by (cases ds) (simp_all add: slice_last_def)
  have len: "length ?r \<le> 7" by (simp add: slice_last_def)
  have "\<forall>d\<in>set ?r. double_dayScore d = 100"
    using full sub by (auto simp: double_dayScore_def full_day_score)
  then have "\<forall>x\<in>set (map double_dayScore ?r). x = 100" by simp
  then have "foldl fadd (100 * real 0) (map double_dayScore ?r)
               = 100 * real (0 + length (map double_dayScore ?r))"
    using len by (intro sum_hundreds) simp_all
  then have "double_sum (map double_dayScore ?r) = 100 * real (length ?r)"
    by (simp add: double_sum_def)
  then have "double_mean (map double_dayScore ?r) = 100"
    using ne' len mean_hundreds[of "length ?r"] by (simp add: double_mean_def)
  then show ?thesis using calculateProductivityScore_nonempty[OF ne] by simp
qed

text \<open>
  The score is computed in doubles, and the sum of the day scores is rounded at every
  addition: for two days that score 67 + 1/6 and 37 + 5/6 over the reals, the exact mean
  is 52.5 and rounds to 53, while the double sum is just below 105 and the code returns
  52.
\<close>

lemma calculateProductivityScore_double_rounding:
  "calculateProductivityScore two_days [] = 52 \<and>
   round (spec_mean (map spec_dayScore (slice_last 7 two_days))) = 53"
  by code_simp

text \<open>
  C6, as stated, fails: the claim makes the result the arithmetic mean of the per-day
  scores, but the code returns \<open>Math.round\<close> of that mean. Three days with one item each
  and one search on the third score 30, 30 and 32; the mean is 92/3, in doubles
  30.666666666666668, and the code returns 31.
\<close>

theorem calculateProductivityScore_not_mean:
  "calculateProductivityScore three_days [] = 31 \<and>
   spec_mean (map spec_dayScore (slice_last 7 three_days)) = 92 / 3 \<and>
   calculateProductivityScore three_days []
     \<noteq> spec_mean (map spec_dayScore (slice_last 7 three_days)) \<and>
   calculateProductivityScore three_days []
     \<noteq> double_mean (map double_dayScore (slice_last 7 three_days))"
  by code_simp

text \<open>
  C6 (amended): \<open>calculateProductivityScore\<close> returns 0 for an empty daily-usage list;
  otherwise, over the last 7 days, each day scores
  min(itemsCreated*10, 40) + min(searchCount*2, 20) + min((timeSpent/60)*10, 20)
  + (20 if itemsCreated > 0 else 0), capped at 100, and the result is \<open>Math.round\<close> of the
  arithmetic mean of those day scores, the formula, the sum and the division all being
  computed in double-precision arithmetic; rows that all have itemsCreated = 5,
  searchCount = 10 and timeSpent = 120 yield 100.
\<close>

theorem calculateProductivityScore_rounded_mean:
  "calculateProductivityScore [] items = 0 \<and>
   (ds \<noteq> [] \<longrightarrow> calculateProductivityScore ds items =
       of_int (round (double_mean (map double_dayScore (slice_last 7 ds))))) \<and>
   (ds \<noteq> [] \<and> (\<forall>d\<in>set ds. itemsCreated d = 5 \<and> searchCount d = 10 \<and> timeSpent d = 120)
      \<longrightarrow> calculateProductivityScore ds items = 100)"
  using calculateProductivityScore_nonempty calculateProductivityScore_full_days
  by (simp add: calculateProductivityScore_def)

theorem calculateProductivityScore_week_witness:
  "calculateProductivityScore (replicate 7 full_day) [] = 100 \<and>
   calculateProductivityScore (replicate 7 full_day) [] =
     of_int (round (double_mean (map double_dayScore (slice_last 7 (replicate 7 full_day)))))"
  using calculateProductivityScore_rounded_mean [of "[]" "replicate 7 full_day"]
  by (simp add: full_day_def emptyRow_def)

subsection \<open>Peak usage hours\<close>

lemma length_count_hours: "length (count_hours z events hc) = length hc"
  by (induction events arbitrary: hc) (simp_all add: Let_def)

lemma length_analyzePeakUsageHours: "length (analyzePeakUsageHours z events) = 3"
  by (simp add: analyzePeakUsageHours_def Let_def length_count_hours)

lemma analyzePeakUsageHours_nonempty: "analyzePeakUsageHours z events \<noteq> []"
  using length_analyzePeakUsageHours[of z events] by auto

text \<open>
  C10: \<open>analyzePeakUsageHours\<close> returns exactly 3 hours for every event list; for the
  empty list all 24 buckets tie at 0 and the stable sort keeps the hours 0, 1, 2 in front;
  so \<open>generateInsights\<close> always emits the insight titled "Peak Usage Hours Identified",
  also with no events (and, with no daily rows either, nothing else).
\<close>

theorem analyzePeakUsageHours_always_three:
  "length (analyzePeakUsageHours z events) = 3 \<and>
   analyzePeakUsageHours z [] = [0, 1, 2] \<and>
   (\<exists>i. i \<in> set (generateInsights z ua daily events) \<and> title_ins i = ''Peak Usage Hours Identified'') \<and>
   generateInsights z ua [] [] =
     [\<lparr>id_ins = ''peak_usage_pattern'', type_ins = usage_pattern,
       title_ins = ''Peak Usage Hours Identified'', impact = medium,
       category_ins = ''Time Management'', actionable = True,
       relatedMetrics = [''session_duration'', ''items_created'']\<rparr>]"
proof -
  have a: "analyzePeakUsageHours z [] = [0, 1, 2]" by code_simp
  have b: "\<exists>i. i \<in> set (generateInsights z ua daily events) \<and> title_ins i = ''Peak Usage Hours Identified''"
  proof -
    have "\<exists>i\<in>set (generateInsights z ua daily events). title_ins i = ''Peak Usage Hours Identified''"
      by (auto simp add: generateInsights_def Let_def analyzePeakUsageHours_nonempty)
    then show ?thesis by blast
  qed
  have c: "generateInsights z ua [] [] =
     [\<lparr>id_ins = ''peak_usage_pattern'', type_ins = usage_pattern,
       title_ins = ''Peak Usage Hours Identified'', impact = medium,
       category_ins = ''Time Management'', actionable = True,
       relatedMetrics = [''session_duration'', ''items_created'']\<rparr>]"
    by (simp add: generateInsights_def Let_def a)
  show ?thesis using length_analyzePeakUsageHours a b c by blast
qed

subsection \<open>Double arithmetic on integers\<close>

lemma expo_ge1_le: "1 \<le> x \<Longrightarrow> 2 ^ expo_ge1 x \<le> x"
proof (induction x rule: expo_ge1.induct)
  case (1 x)
  show ?case
  proof (cases "x < 2")
    case True
    then show ?thesis using 1 by (simp add: expo_ge1.simps[of x])
  next
    case False
    then have "2 ^ expo_ge1 (x / 2) \<le> x / 2" using 1 by simp
    then show ?thesis using False by (simp add: expo_ge1.simps[of x])
  qed
qed

lemma round_half_even_of_int: "round_half_even (of_int m) = m"
  by (simp add: round_half_even_def)

text \<open>An integer below \<open>2^53\<close> in magnitude is a double.\<close>

lemma rnd_of_int:
  assumes "\<bar>k\<bar> < 2 ^ 53"
  shows "rnd (of_int k) = of_int k"
proof (cases "k = 0")
  case True
  then show ?thesis by (simp add: rnd_def)
next
  case False
  let ?a = "\<bar>of_int k :: real\<bar>"
  have "1 \<le> \<bar>k\<bar>" using False by simp
  then have "(of_int 1 :: real) \<le> of_int \<bar>k\<bar>" by (simp only: of_int_le_iff)
  then have a1: "1 \<le> ?a" by simp
  let ?e = "expo_ge1 ?a"
  have "2 ^ ?e \<le> ?a" using expo_ge1_le[OF a1] .
  moreover have "?a < 2 ^ 53"
  proof -
    have "(of_int \<bar>k\<bar> :: real) < of_int (2 ^ 53)" using assms by (simp only: of_int_less_iff)
    then show ?thesis by simp
  qed
  ultimately have "(2::real) ^ ?e < 2 ^ 53" by linarith
  then have e: "?e < 53"
    by (simp only: power_strict_increasing_iff one_less_numeral_iff semiring_norm)
  have ex: "exponent (of_int k) = int ?e" using a1 by (simp add: exponent_def)
  have p: "pow2 (int ?e - 52) = 1 / 2 ^ (52 - ?e)"
    using e by (auto simp add: pow2_def nat_diff_distrib)
  have q: "of_int k / (1 / 2 ^ (52 - ?e)) = (of_int (k * 2 ^ (52 - ?e)) :: real)" by simp
  show ?thesis
    using False unfolding rnd_def ex p Let_def q round_half_even_of_int by simp
qed

subsection \<open>Streak\<close>

text \<open>The loop stops at the first row whose offset differs from the running count or
  that has no item; up to there every row passes both tests.\<close>

lemma streak_loop_char:
  "c \<le> streak_loop z today s c \<and> streak_loop z today s c - c \<le> length s \<and>
   (\<forall>i < streak_loop z today s c - c.
       daysDiff z today (s ! i) = int (c + i) \<and> itemsCreated (s ! i) > 0) \<and>
   (streak_loop z today s c - c < length s \<longrightarrow>
      \<not> (daysDiff z today (s ! (streak_loop z today s c - c)) = int (streak_loop z today s c)
          \<and> itemsCreated (s ! (streak_loop z today s c - c)) > 0))"
proof (induction s arbitrary: c)
  case Nil
  show ?case by simp
next
  case (Cons u rest)
  show ?case
  proof (cases "daysDiff z today u = int c \<and> itemsCreated u > 0")
    case False
    then show ?thesis by auto
  next
    case True
    let ?r = "streak_loop z today rest (c + 1)"
    have r: "streak_loop z today (u # rest) c = ?r" using True by simp
    note ih = Cons.IH[of "c + 1"]
    have ge: "c + 1 \<le> ?r" using ih by simp
    have d: "?r - c = Suc (?r - (c + 1))" using ge by simp
    show ?thesis
      unfolding r d using ih True ge
      by (auto simp: nth_Cons split: nat.splits)
  qed
qed

text \<open>
  The walk of the claim, in every time zone: with the rows sorted by date, descending, the
  streak \<open>k\<close> is the number of leading rows whose offset from today equals their position
  and whose \<open>itemsCreated\<close> is positive; row \<open>k\<close>, if there is one, is the first gap or
  zero-activity day.
\<close>

lemma streak_char:
  "calculateCurrentStreak z now rows \<le> length rows \<and>
   (\<forall>i < calculateCurrentStreak z now rows.
       daysDiff z (startOfDay z now) (sortByDateDesc rows ! i) = int i
       \<and> itemsCreated (sortByDateDesc rows ! i) > 0) \<and>
   (calculateCurrentStreak z now rows < length rows \<longrightarrow>
       \<not> (daysDiff z (startOfDay z now) (sortByDateDesc rows ! calculateCurrentStreak z now rows)
              = int (calculateCurrentStreak z now rows)
          \<and> itemsCreated (sortByDateDesc rows ! calculateCurrentStreak z now rows) > 0))"
proof (cases "rows = []")
  case True
  then show ?thesis by (simp add: calculateCurrentStreak_def)
next
  case False
  then have k: "calculateCurrentStreak z now rows
      = streak_loop z (startOfDay z now) (sortByDateDesc rows) 0"
    by (simp add: calculateCurrentStreak_def)
  have l: "length (sortByDateDesc rows) = length rows" by (simp add: sortByDateDesc_def)
  show ?thesis using streak_loop_char[of 0 z "startOfDay z now" "sortByDateDesc rows"]
    unfolding k l by simp
qed

text \<open>In a zone without clock changes the offset of a row is the difference of the local
  day numbers.\<close>

lemma daysDiff_fixed_zone:
  assumes "\<bar>(localDay (fixed_zone c) now - localDay (fixed_zone c) (date u)) * msPerDay\<bar> < 2 ^ 53"
  shows "daysDiff (fixed_zone c) (startOfDay (fixed_zone c) now) u
           = localDay (fixed_zone c) now - localDay (fixed_zone c) (date u)"
proof -
  let ?z = "fixed_zone c"
  let ?j = "localDay ?z now - localDay ?z (date u)"
  have s: "\<And>t. startOfDay ?z t = localDay ?z t * msPerDay - c"
    by (simp add: startOfDay_def UTC_def fixed_zone_def)
  have d: "startOfDay ?z now - startOfDay ?z (date u) = ?j * msPerDay"
    by (simp add: s left_diff_distrib)
  have "\<bar>?j\<bar> \<le> \<bar>?j * msPerDay\<bar>" by (simp add: abs_mult msPerDay_def)
  then have j: "\<bar>?j\<bar> < 2 ^ 53" using assms by linarith
  have "fsub (real_of_int (startOfDay ?z now)) (real_of_int (startOfDay ?z (date u)))
          = rnd (real_of_int (?j * msPerDay))"
    unfolding fsub_def d[symmetric] by simp
  then have sub: "fsub (real_of_int (startOfDay ?z now)) (real_of_int (startOfDay ?z (date u)))
          = real_of_int (?j * msPerDay)"
    using rnd_of_int[OF assms] by simp
  have "real_of_int (?j * msPerDay) / real_of_int msPerDay = real_of_int ?j"
    by (simp add: msPerDay_def)
  then have "fdiv (real_of_int (?j * msPerDay)) (real_of_int msPerDay) = rnd (real_of_int ?j)"
    by (simp only: fdiv_def)
  then show ?thesis using rnd_of_int[OF j] sub by (simp add: daysDiff_def)
qed

lemma sorted_days:
  "sorted (map (\<lambda>u. - date u) s) \<Longrightarrow>
   distinct (map (\<lambda>u. localDay (fixed_zone c) (date u)) s) \<Longrightarrow>
   sorted_wrt (\<lambda>u v. localDay (fixed_zone c) (date v) < localDay (fixed_zone c) (date u)) s"
proof (induction s)
  case Nil
  then show ?case by simp
next
  case (Cons u rest)
  let ?d = "\<lambda>w. localDay (fixed_zone c) (date w)"
  have m: "0 < msPerDay" by (simp add: msPerDay_def)
  have "\<forall>v\<in>set rest. ?d v < ?d u"
  proof
    fix v assume v: "v \<in> set rest"
    then have le: "date v \<le> date u" using Cons.prems(1) by auto
    have "?d u \<notin> ?d ` set rest" using Cons.prems(2) by simp
    then have ne: "?d v \<noteq> ?d u" using v by (metis imageI)
    have "?d v \<le> ?d u"
      using le m by (simp add: localDay_def LocalTime_def dayOf_def fixed_zone_def zdiv_mono1)
    then show "?d v < ?d u" using ne by simp
  qed
  then show ?case using Cons by simp
qed

text \<open>On rows with strictly decreasing local days, none after day \<open>D - c\<close>, the loop
  counts the consecutive active days \<open>D - c\<close>, \<open>D - c - 1\<close>, ...\<close>

lemma streak_loop_contiguous:
  assumes z: "z = fixed_zone off"
      and "sorted_wrt (\<lambda>u v. localDay z (date v) < localDay z (date u)) s"
      and "\<forall>u\<in>set s. localDay z (date u) \<le> localDay z now - int c"
      and "\<forall>u\<in>set s. \<bar>(localDay z now - localDay z (date u)) * msPerDay\<bar> < 2 ^ 53"
  shows "(\<forall>j. c \<le> j \<and> j < streak_loop z (startOfDay z now) s c
              \<longrightarrow> active_on z s (localDay z now - int j)) \<and>
         \<not> active_on z s (localDay z now - int (streak_loop z (startOfDay z now) s c))"
  using assms(2,3,4)
proof (induction s arbitrary: c)
  case Nil
  show ?case by (simp add: active_on_def)
next
  case (Cons u rest)
  have dd: "daysDiff z (startOfDay z now) u = localDay z now - localDay z (date u)"
    using Cons.prems(3) daysDiff_fixed_zone[of off now u] by (simp add: z)
  have lt: "\<forall>v\<in>set rest. localDay z (date v) < localDay z (date u)" using Cons.prems(1) by simp
  have rg: "\<forall>u\<in>set rest. \<bar>(localDay z now - localDay z (date u)) * msPerDay\<bar> < 2 ^ 53"
    using Cons.prems(3) by simp
  show ?case
  proof (cases "daysDiff z (startOfDay z now) u = int c \<and> itemsCreated u > 0")
    case True
    then have du: "localDay z (date u) = localDay z now - int c" using dd by simp
    have b: "\<forall>v\<in>set rest. localDay z (date v) \<le> localDay z now - int (c + 1)"
      using lt du by auto
    have s: "sorted_wrt (\<lambda>u v. localDay z (date v) < localDay z (date u)) rest"
      using Cons.prems(1) by simp
    note ih = Cons.IH[OF s b rg]
    let ?r = "streak_loop z (startOfDay z now) rest (c + 1)"
    have r: "streak_loop z (startOfDay z now) (u # rest) c = ?r" using True by simp
    have ge: "c + 1 \<le> ?r" using streak_loop_char[of "c + 1" z "startOfDay z now" rest] by simp
    have a1: "\<forall>j. c \<le> j \<and> j < ?r \<longrightarrow> active_on z (u # rest) (localDay z now - int j)"
    proof (intro allI impI)
      fix j assume j: "c \<le> j \<and> j < ?r"
      show "active_on z (u # rest) (localDay z now - int j)"
      proof (cases "j = c")
        case True
        then show ?thesis
          using du \<open>daysDiff z (startOfDay z now) u = int c \<and> itemsCreated u > 0\<close>
          by (auto simp: active_on_def)
      next
        case False
        then have "c + 1 \<le> j \<and> j < ?r" using j by simp
        then have "active_on z rest (localDay z now - int j)" using ih by blast
        then show ?thesis by (auto simp: active_on_def)
      qed
    qed
    have a2: "\<not> active_on z (u # rest) (localDay z now - int ?r)"
    proof -
      have "\<not> active_on z rest (localDay z now - int ?r)" using ih by blast
      moreover have "localDay z (date u) \<noteq> localDay z now - int ?r" using du ge by simp
      ultimately show ?thesis by (auto simp: active_on_def)
    qed
    show ?thesis unfolding r using a1 a2 by blast
  next
    case False
    then have r: "streak_loop z (startOfDay z now) (u # rest) c = c" by auto
    have "\<not> active_on z (u # rest) (localDay z now - int c)"
    proof
      assume "active_on z (u # rest) (localDay z now - int c)"
      then obtain v where v: "v \<in> set (u # rest)" "localDay z (date v) = localDay z now - int c"
          "itemsCreated v > 0"
        by (auto simp: active_on_def)
      show False
      proof (cases "v = u")
        case True
        then show ?thesis using v False dd by simp
      next
        case False
        then have "v \<in> set rest" using v by simp
        then have "localDay z (date v) < localDay z (date u)" using lt by blast
        moreover have "localDay z (date u) \<le> localDay z now - int c" using Cons.prems(2) by simp
        ultimately show ?thesis using v by simp
      qed
    qed
    then show ?thesis unfolding r by auto
  qed
qed

lemma streak_contiguous:
  assumes z: "z = fixed_zone off"
      and "distinct (map (\<lambda>u. localDay z (date u)) rows)"
      and "\<forall>u\<in>set rows. localDay z (date u) \<le> localDay z now"
      and "\<forall>u\<in>set rows. \<bar>(localDay z now - localDay z (date u)) * msPerDay\<bar> < 2 ^ 53"
  shows "(\<forall>j < calculateCurrentStreak z now rows. active_on z rows (localDay z now - int j)) \<and>
         \<not> active_on z rows (localDay z now - int (calculateCurrentStreak z now rows))"
proof (cases "rows = []")
  case True
  then show ?thesis by (simp add: calculateCurrentStreak_def active_on_def)
next
  case False
  let ?s = "sortByDateDesc rows"
  have set_s: "set ?s = set rows" by (simp add: sortByDateDesc_def)
  have "sorted (map (\<lambda>u. - date u) ?s)" by (simp add: sortByDateDesc_def)
  moreover have "distinct (map (\<lambda>u. localDay (fixed_zone off) (date u)) ?s)"
    using assms(2) by (simp add: sortByDateDesc_def distinct_map z)
  ultimately have "sorted_wrt (\<lambda>u v. localDay (fixed_zone off) (date v)
                                     < localDay (fixed_zone off) (date u)) ?s"
    by (rule sorted_days)
  then have sw: "sorted_wrt (\<lambda>u v. localDay z (date v) < localDay z (date u)) ?s"
    by (simp add: z)
  have b: "\<forall>u\<in>set ?s. localDay z (date u) \<le> localDay z now - int 0"
    using assms(3) set_s by simp
  have rg: "\<forall>u\<in>set ?s. \<bar>(localDay z now - localDay z (date u)) * msPerDay\<bar> < 2 ^ 53"
    using assms(4) set_s by simp
  have act: "\<And>d. active_on z ?s d = active_on z rows d" by (simp add: active_on_def set_s)
  have k: "calculateCurrentStreak z now rows = streak_loop z (startOfDay z now) ?s 0"
    using False by (simp add: calculateCurrentStreak_def)
  show ?thesis
    using streak_loop_contiguous[OF z sw b rg] by (simp add: k act)
qed

text \<open>
  The two examples of the claim hold in a zone without clock changes when the rows are
  dated on distinct local days, none after today (the last hypothesis says that the
  local midnights are less than \<open>2^53\<close> ms apart, so that their difference is a
  double).
\<close>

lemma streak_examples_fixed_zone:
  assumes z: "z = fixed_zone off"
      and "distinct (map (\<lambda>u. localDay z (date u)) rows)"
      and "\<forall>u\<in>set rows. localDay z (date u) \<le> localDay z now"
      and "\<forall>u\<in>set rows. \<bar>(localDay z now - localDay z (date u)) * msPerDay\<bar> < 2 ^ 53"
  shows "(active_on z rows (localDay z now) \<and> active_on z rows (localDay z now - 1)
           \<and> \<not> active_on z rows (localDay z now - 2)
            \<longrightarrow> calculateCurrentStreak z now rows = 2) \<and>
         (\<not> active_on z rows (localDay z now) \<longrightarrow> calculateCurrentStreak z now rows = 0)"
proof -
  let ?k = "calculateCurrentStreak z now rows"
  have c: "(\<forall>j < ?k. active_on z rows (localDay z now - int j)) \<and>
         \<not> active_on z rows (localDay z now - int ?k)"
    using streak_contiguous[OF assms] .
  have two: "?k = 2" if a: "active_on z rows (localDay z now)"
      "active_on z rows (localDay z now - 1)" "\<not> active_on z rows (localDay z now - 2)"
  proof -
    have "?k \<noteq> 0"
    proof
      assume "?k = 0"
      with c have "\<not> active_on z rows (localDay z now - int 0)" by metis
      then show False using a(1) by simp
    qed
    moreover have "?k \<noteq> 1"
    proof
      assume "?k = 1"
      with c have "\<not> active_on z rows (localDay z now - int 1)" by metis
      then show False using a(2) by simp
    qed
    moreover have "\<not> 2 < ?k"
    proof
      assume "2 < ?k"
      then have "active_on z rows (localDay z now - int 2)" using c by blast
      then show False using a(3) by simp
    qed
    ultimately show ?thesis by arith
  qed
  have zero: "?k = 0" if a: "\<not> active_on z rows (localDay z now)"
  proof (rule ccontr)
    assume "?k \<noteq> 0"
    then have "0 < ?k" by simp
    then have "active_on z rows (localDay z now - int 0)" using c by blast
    then show False using a by simp
  qed
  show ?thesis using two zero by blast
qed

text \<open>
  C7: the examples of the claim fail on the code where local days are not all 24 hours
  long, or where rows are dated on the same local day. The offset of a row is the
  difference between the local midnights of today and of the row's date, divided by 24
  hours and rounded down, while the store keeps one row per UTC day.
  In Central European time on 2024-04-01, for a user active today and yesterday (the
  23-hour day of the clock change) and not on the day before, the offset of yesterday's
  row is \<open>\<lfloor>23/24\<rfloor> = 0\<close> and the streak is 1, where the claim gives 2.
  In New York at 21:00 on 2024-01-10, a user active on 2024-01-09 and in the morning and
  the evening of 2024-01-10 has the rows of three UTC days, two of them dated today; the
  second row of today ends the walk and the streak is 1, where the claim gives 2.
\<close>

theorem calculateCurrentStreak_misses_yesterday:
  "active_on berlin dst_rows (localDay berlin dst_now) \<and>
   active_on berlin dst_rows (localDay berlin dst_now - 1) \<and>
   \<not> active_on berlin dst_rows (localDay berlin dst_now - 2) \<and>
   startOfDay berlin dst_now - startOfDay berlin (date (dst_rows ! 0)) = 23 * msPerHour \<and>
   daysDiff berlin (startOfDay berlin dst_now) (dst_rows ! 0) = 0 \<and>
   calculateCurrentStreak berlin dst_now dst_rows = 1 \<and>
   active_on new_york evening_rows (localDay new_york evening_now) \<and>
   active_on new_york evening_rows (localDay new_york evening_now - 1) \<and>
   \<not> active_on new_york evening_rows (localDay new_york evening_now - 2) \<and>
   map (\<lambda>u. localDay new_york evening_now - localDay new_york (date u)) evening_rows = [1, 0, 0] \<and>
   map (\<lambda>u. dayOf evening_now - formatDateKey (date u)) evening_rows = [2, 1, 0] \<and>
   calculateCurrentStreak new_york evening_now evening_rows = 1"
  by code_simp

subsection \<open>Collector: buffering and flushing\<close>

lemma events_updateRealTimeMetrics [simp]:
  "events_tbl (updateRealTimeMetrics e ev d) = events_tbl d"
  by (simp add: updateRealTimeMetrics_def saveDailyUsage_def Let_def)

lemma ensureInitialized_initialized [simp]:
  "initialized s \<Longrightarrow> ensureInitialized e s = Inr s"
  by (simp add: ensureInitialized_def)

lemma ensureInitialized_Inl:
  "(ensureInitialized e s = Inl err) =
     (\<not> initialized s \<and> getUserAnalytics e (storageService s) = None \<and> \<not> writable e
      \<and> err = StoreError)"
  by (auto simp: ensureInitialized_def initialize_def createInitialAnalytics_def
      saveUserAnalytics_def Let_def split: if_splits sum.splits)

text \<open>When the analytics service cannot initialise, \<open>trackEvent\<close> throws, the \<open>catch\<close> of
  the flush puts the batch back, and the Collector is as before the flush.\<close>

lemma flushActivityBuffer_requeues:
  assumes "\<not> initialized (analyticsService c)"
      and "getUserAnalytics (envs 0) (storageService (analyticsService c)) = None"
      and "\<not> writable (envs 0)"
  shows "flushActivityBuffer envs c = c"
proof (cases "activityBuffer c")
  case Nil
  then show ?thesis by (simp add: flushActivityBuffer_def)
next
  case (Cons ev rest)
  have "ensureInitialized (envs 0) (analyticsService c) = Inl StoreError"
    using assms by (simp add: ensureInitialized_Inl)
  then have "flush_loop envs 0 (ev # rest) (analyticsService c) = (analyticsService c, True)"
    by (simp add: trackEvent_def)
  then show ?thesis using Cons by (simp add: flushActivityBuffer_def flush_try_def Let_def)
qed

text \<open>Once the service is initialised, a failed \<open>events.add\<close> is caught inside the storage
  service: the loop sees no exception and nothing is put back.\<close>

lemma flush_loop_unwritable:
  "initialized s \<Longrightarrow> \<forall>i. \<not> writable (envs i) \<Longrightarrow> flush_loop envs i batch s = (s, False)"
  by (induction batch arbitrary: i) (simp_all add: trackEvent_def trackEvent_storage_def)

lemma flushActivityBuffer_drops:
  assumes "initialized (analyticsService c)" and "\<forall>i. \<not> writable (envs i)"
  shows "flushActivityBuffer envs c = c\<lparr>activityBuffer := []\<rparr>"
  using flush_loop_unwritable[OF assms, of 0 "activityBuffer c"]
  by (simp add: flushActivityBuffer_def flush_try_def Let_def)

text \<open>
  C1: the claim fails on the code, which loses events. \<open>flushActivityBuffer\<close> has the
  \<open>catch\<close> that puts a failed batch back in front of the buffer, and it does so when
  \<open>trackEvent\<close> throws because the analytics service cannot initialise. But once the
  service is initialised, the storage service's \<open>trackEvent\<close> catches a failed
  \<open>events.add\<close> and does not rethrow, so the flush sees no failure. One search is
  tracked, then the timer ticks while the store is down: on the initialised Collector
  nothing is in the store and nothing is left in the buffer; on the Collector that is not
  yet initialised the same run leaves the event in the buffer.
\<close>

theorem flush_loses_event_when_add_fails:
  "tracked lost_run = 1 \<and> delivered ready_collector = 0 \<and> buffered ready_collector = 0 \<and>
   delivered (run lost_run ready_collector) = 0 \<and> buffered (run lost_run ready_collector) = 0 \<and>
   delivered (run lost_run fresh_collector) = 0 \<and> buffered (run lost_run fresh_collector) = 1"
  by (simp add: lost_run_def tracked_def delivered_def buffered_def ready_collector_def
      fresh_collector_def empty_db_def store_up_def store_down_def bufferEvent_def
      flushActivityBuffer_def flush_try_def trackEvent_def trackEvent_storage_def
      ensureInitialized_def initialize_def getUserAnalytics_def createInitialAnalytics_def
      saveUserAnalytics_def Let_def)

lemma run_append: "run (a @ b) c = run b (run a c)"
  by (induction a arbitrary: c) simp_all

lemma bufferEvent_no_flush:
  "length (activityBuffer c) < 9 \<Longrightarrow>
   activityBuffer (bufferEvent now envs ty dat c)
     = activityBuffer c @ [\<lparr>type_buf = ty, data_buf = dat, timestamp_buf = now\<rparr>] \<and>
   analyticsService (bufferEvent now envs ty dat c) = analyticsService c"
  by (simp add: bufferEvent_def Let_def)

lemma run_track_no_flush:
  "length (activityBuffer c) + length evs < 10 \<Longrightarrow>
   activityBuffer (run (track_ops envs evs) c) = activityBuffer c @ map buffered_of evs \<and>
   analyticsService (run (track_ops envs evs) c) = analyticsService c"
proof (induction evs arbitrary: c)
  case Nil
  then show ?case by (simp add: track_ops_def)
next
  case (Cons x evs)
  obtain now ty dat where x: "x = (now, ty, dat)" by (cases x) auto
  have l: "length (activityBuffer c) < 9" using Cons.prems by simp
  note b = bufferEvent_no_flush[OF l, of now envs ty dat]
  have l': "length (activityBuffer (bufferEvent now envs ty dat c)) + length evs < 10"
    using Cons.prems b by simp
  have r: "run (track_ops envs (x # evs)) c = run (track_ops envs evs) (bufferEvent now envs ty dat c)"
    by (simp add: track_ops_def x)
  show ?case using Cons.IH[OF l'] b unfolding r by (simp add: buffered_of_def x)
qed

lemma trackEvent_writable:
  "writable e \<Longrightarrow> \<exists>s'. trackEvent e ty dat s = Inr s' \<and>
     map type_ev (events_tbl (storageService s')) = map type_ev (events_tbl (storageService s)) @ [ty]"
  by (auto simp add: trackEvent_def ensureInitialized_def initialize_def createInitialAnalytics_def
      saveUserAnalytics_def trackEvent_storage_def Let_def)

lemma flush_loop_writable:
  "\<forall>j. writable (envs j) \<Longrightarrow>
   \<not> snd (flush_loop envs i batch s) \<and>
   map type_ev (events_tbl (storageService (fst (flush_loop envs i batch s))))
     = map type_ev (events_tbl (storageService s)) @ map type_buf batch"
proof (induction batch arbitrary: i s)
  case Nil
  then show ?case by simp
next
  case (Cons b batch)
  have w: "writable (envs i)" using Cons.prems by simp
  from trackEvent_writable[OF w, of "type_buf b" "data_buf b" s] obtain s' where
    s': "trackEvent (envs i) (type_buf b) (data_buf b) s = Inr s'"
    and t: "map type_ev (events_tbl (storageService s'))
              = map type_ev (events_tbl (storageService s)) @ [type_buf b]"
    by blast
  show ?case using Cons.IH[OF Cons.prems, of "i + 1" s'] s' t by simp
qed

lemma bufferEvent_tenth:
  assumes "length (activityBuffer c) = 9" and "\<forall>j. writable (envs j)"
  shows "activityBuffer (bufferEvent now envs ty dat c) = [] \<and>
         stored_types (bufferEvent now envs ty dat c)
           = stored_types c @ map type_buf (activityBuffer c) @ [ty]"
proof -
  let ?b = "activityBuffer c @ [\<lparr>type_buf = ty, data_buf = dat, timestamp_buf = now\<rparr>]"
  obtain s' fl where r: "flush_loop envs 0 ?b (analyticsService c) = (s', fl)" by fastforce
  from flush_loop_writable[OF assms(2), of 0 ?b "analyticsService c"] r
  have fl: "\<not> fl" and ev: "map type_ev (events_tbl (storageService s'))
      = map type_ev (events_tbl (storageService (analyticsService c))) @ map type_buf ?b"
    by simp_all
  show ?thesis using assms(1) r fl ev
    by (simp add: bufferEvent_def Let_def flushActivityBuffer_def flush_try_def stored_types_def)
qed

lemma eleven_tracked:
  assumes e: "activityBuffer c = []" and l: "length evs = 11" and w: "\<forall>j. writable (envs j)"
  shows "(\<forall>k<10. activityBuffer (run (track_ops envs (take k evs)) c) = map buffered_of (take k evs)
                  \<and> stored_types (run (track_ops envs (take k evs)) c) = stored_types c) \<and>
         activityBuffer (run (track_ops envs (take 10 evs)) c) = [] \<and>
         stored_types (run (track_ops envs (take 10 evs)) c)
            = stored_types c @ map (\<lambda>x. fst (snd x)) (take 10 evs) \<and>
         activityBuffer (run (track_ops envs evs) c) = [buffered_of (evs ! 10)] \<and>
         stored_types (run (track_ops envs evs) c)
            = stored_types c @ map (\<lambda>x. fst (snd x)) (take 10 evs)"
proof -
  have small: "\<And>k. k < 10 \<Longrightarrow>
      activityBuffer (run (track_ops envs (take k evs)) c) = map buffered_of (take k evs)
      \<and> analyticsService (run (track_ops envs (take k evs)) c) = analyticsService c"
    using run_track_no_flush[of c "take _ evs" envs] e l by simp
  let ?c9 = "run (track_ops envs (take 9 evs)) c"
  obtain now ty dat where x: "evs ! 9 = (now, ty, dat)" by (cases "evs ! 9") auto
  have t10: "take 10 evs = take 9 evs @ [evs ! 9]"
    using l by (metis Suc_numeral semiring_norm(5,8) take_Suc_conv_app_nth
        numeral_less_iff semiring_norm(76,78,81) eval_nat_numeral(3) lessI less_Suc_eq)
  have c9: "activityBuffer ?c9 = map buffered_of (take 9 evs)"
       "analyticsService ?c9 = analyticsService c"
    using small[of 9] by simp_all
  have l9: "length (activityBuffer ?c9) = 9" using c9 l by simp
  let ?c10 = "run (track_ops envs (take 10 evs)) c"
  have c10: "?c10 = bufferEvent now envs ty dat ?c9"
    by (simp add: t10 track_ops_def run_append x)
  note tenth = bufferEvent_tenth[OF l9 w, of now ty dat]
  have bt: "map type_buf (map buffered_of (take 9 evs)) = map (\<lambda>x. fst (snd x)) (take 9 evs)"
    by (simp add: buffered_of_def case_prod_beta)
  have st9: "stored_types ?c9 = stored_types c" using c9 by (simp add: stored_types_def)
  have a10: "activityBuffer ?c10 = []" using tenth c10 by simp
  have s10: "stored_types ?c10 = stored_types c @ map (\<lambda>x. fst (snd x)) (take 10 evs)"
    using tenth c10 c9 st9 bt by (simp add: t10 x)
  have t11: "evs = take 10 evs @ [evs ! 10]"
    using l by (metis lessI numeral_eq_Suc pred_numeral_simps(2,3) semiring_norm(26,27)
        take_Suc_conv_app_nth take_all order_refl Suc_numeral semiring_norm(2,5,8))
  obtain now' ty' dat' where x': "evs ! 10 = (now', ty', dat')" by (cases "evs ! 10") auto
  have c11: "run (track_ops envs evs) c = bufferEvent now' envs ty' dat' ?c10"
    by (subst t11) (simp add: track_ops_def run_append x')
  have l10: "length (activityBuffer ?c10) < 9" using a10 by simp
  note last = bufferEvent_no_flush[OF l10, of now' envs ty' dat']
  have a11: "activityBuffer (run (track_ops envs evs) c) = [buffered_of (evs ! 10)]"
    using last a10 c11 by (simp add: buffered_of_def x')
  have s11: "stored_types (run (track_ops envs evs) c) = stored_types ?c10"
    using last c11 by (simp add: stored_types_def)
  have first: "\<forall>k<10. activityBuffer (run (track_ops envs (take k evs)) c) = map buffered_of (take k evs)
                  \<and> stored_types (run (track_ops envs (take k evs)) c) = stored_types c"
    using small by (simp add: stored_types_def)
  show ?thesis using first a10 s10 a11 s11 by simp
qed

text \<open>
  C5: with no timer tick in between and a store that accepts the writes, the buffer is
  flushed inside the \<open>track*()\<close> call that brings it to 10 entries: that call delivers
  the 10 events, in order, and leaves the buffer empty. Starting from an
  empty buffer and tracking 11 events: after each of the first 9 calls the buffer holds
  the events tracked so far and the store is unchanged; the 10th call delivers the first
  10 events, in order, and empties the buffer; after the 11th call the buffer holds
  exactly the 11th event.
\<close>

theorem bufferEvent_flushes_at_ten:
  "(length (activityBuffer c') = 9 \<and> (\<forall>j. writable (envs j)) \<longrightarrow>
     activityBuffer (bufferEvent now envs ty dat c') = [] \<and>
     stored_types (bufferEvent now envs ty dat c')
        = stored_types c' @ map type_buf (activityBuffer c') @ [ty]) \<and>
   (activityBuffer c = [] \<and> length evs = 11 \<and> (\<forall>j. writable (envs j)) \<longrightarrow>
     (\<forall>k<10. activityBuffer (run (track_ops envs (take k evs)) c) = map buffered_of (take k evs)
              \<and> stored_types (run (track_ops envs (take k evs)) c) = stored_types c) \<and>
     activityBuffer (run (track_ops envs (take 10 evs)) c) = [] \<and>
     stored_types (run (track_ops envs (take 10 evs)) c)
        = stored_types c @ map (\<lambda>x. fst (snd x)) (take 10 evs) \<and>
     activityBuffer (run (track_ops envs evs) c) = [buffered_of (evs ! 10)] \<and>
     stored_types (run (track_ops envs evs) c)
        = stored_types c @ map (\<lambda>x. fst (snd x)) (take 10 evs))"
  using eleven_tracked[of c evs envs] bufferEvent_tenth[of c' envs now ty dat] by blast

theorem bufferEvent_flushes_at_ten_witness:
  "activityBuffer ready_collector = [] \<and> length eleven_searches = 11 \<and>
   activityBuffer (run (track_ops store_up (take 10 eleven_searches)) ready_collector) = [] \<and>
   stored_types (run (track_ops store_up (take 10 eleven_searches)) ready_collector)
      = stored_types ready_collector @ map (\<lambda>x. fst (snd x)) (take 10 eleven_searches) \<and>
   activityBuffer (run (track_ops store_up eleven_searches) ready_collector)
      = [buffered_of (eleven_searches ! 10)]"
proof -
  have h: "activityBuffer ready_collector = [] \<and> length eleven_searches = 11
      \<and> (\<forall>j. writable (store_up j))"
    by (simp add: ready_collector_def eleven_searches_def store_up_def)
  show ?thesis
    using h bufferEvent_flushes_at_ten[where c=ready_collector and evs=eleven_searches and envs=store_up]
    by blast
qed

subsection \<open>Real-time update of today's row\<close>









text \<open>\<open>updateProductivityMetrics\<close> saves nothing: the store is as \<open>getUserAnalytics\<close> left
  it.\<close>

lemma updateProductivityMetrics_store:
  "initialized (analyticsService c) \<Longrightarrow>
     storageService (analyticsService (fst (updateProductivityMetrics e a dur c)))
       = storageService (analyticsService c)"
  by (simp add: updateProductivityMetrics_def getUserAnalytics_service_def
      split: option.splits)





subsection \<open>Snapshot recomputation\<close>

lemma getEvents_snapshot [simp]:
  "getEvents e q (d\<lparr>user_analytics_current := x\<rparr>) = getEvents e q d"
  by (simp add: getEvents_def)

lemma getDailyUsageRange_snapshot [simp]:
  "getDailyUsageRange e a b (d\<lparr>user_analytics_current := x\<rparr>) = getDailyUsageRange e a b d"
  by (simp add: getDailyUsageRange_def)

lemma recomputed_snapshot [simp]:
  "recomputed e items (d\<lparr>user_analytics_current := x\<rparr>) = recomputed e items d"
  by (simp add: recomputed_def getAccountCreatedDate_def)

lemma snapshot_update_self: "\<exists>y. d = d\<lparr>user_analytics_current := y\<rparr>"
  by (rule exI[of _ "user_analytics_current d"]) simp

lemma ensureInitialized_store:
  "ensureInitialized e s = Inr s1 \<Longrightarrow>
     \<exists>y. storageService s1 = (storageService s)\<lparr>user_analytics_current := y\<rparr>"
  using snapshot_update_self[of "storageService s"]
  by (auto simp: ensureInitialized_def initialize_def createInitialAnalytics_def
      saveUserAnalytics_def Let_def split: if_splits)

lemma ensureInitialized_unwritable:
  "ensureInitialized e s = Inr s1 \<Longrightarrow> \<not> writable e \<Longrightarrow> storageService s1 = storageService s"
  by (auto simp: ensureInitialized_def initialize_def createInitialAnalytics_def
      saveUserAnalytics_def Let_def split: if_splits)

text \<open>
  The snapshot is written by one \<open>put\<close> of the whole recomputed object, and the call
  fails exactly when the store rejects a write; the store is then as before the call.
\<close>

lemma updateUserAnalytics_result:
  "(\<not> writable e \<longrightarrow> snd (updateUserAnalytics e items s) = Inl StoreError
       \<and> storageService (fst (updateUserAnalytics e items s)) = storageService s) \<and>
   (writable e \<longrightarrow> snd (updateUserAnalytics e items s) = Inr (recomputed e items (storageService s))
       \<and> storageService (fst (updateUserAnalytics e items s))
           = (storageService s)\<lparr>user_analytics_current := Some (recomputed e items (storageService s))\<rparr>)"
proof (cases "ensureInitialized e s")
  case (Inl err)
  then have "err = StoreError \<and> \<not> writable e" by (simp add: ensureInitialized_Inl)
  then show ?thesis using Inl by (simp add: updateUserAnalytics_def)
next
  case (Inr s1)
  from ensureInitialized_store[OF Inr] obtain y where
    y: "storageService s1 = (storageService s)\<lparr>user_analytics_current := y\<rparr>" by blast
  show ?thesis
  proof (cases "writable e")
    case True
    then show ?thesis using Inr y
      by (simp add: updateUserAnalytics_def Let_def saveUserAnalytics_def)
  next
    case False
    then show ?thesis using Inr ensureInitialized_unwritable[OF Inr False]
      by (simp add: updateUserAnalytics_def Let_def saveUserAnalytics_def)
  qed
qed

text \<open>
  A failed read is not a failure of the call: \<open>getEvents\<close> and \<open>getDailyUsageRange\<close> catch
  it and answer with the empty list. Whatever the store holds, a recomputation whose
  reads fail and whose write succeeds returns no error and replaces the stored snapshot
  by one computed from no events and no daily rows.
\<close>

lemma updateUserAnalytics_reads_fail:
  assumes "\<not> readable e" and "writable e"
  shows "\<exists>a. snd (updateUserAnalytics e items s) = Inr a \<and>
           user_analytics_current (storageService (fst (updateUserAnalytics e items s))) = Some a \<and>
           searchesPerformed a = 0 \<and> dailyUsage a = [] \<and> streakDays a = 0 \<and>
           productivityScore_ua a = 0 \<and> totalTimeSpent a = 0 \<and> totalSessions a = 0"
proof -
  let ?a = "recomputed e items (storageService s)"
  have "searchesPerformed ?a = 0 \<and> dailyUsage ?a = [] \<and> streakDays ?a = 0 \<and>
           productivityScore_ua ?a = 0 \<and> totalTimeSpent ?a = 0 \<and> totalSessions ?a = 0"
    using assms(1)
    by (simp add: recomputed_def getEvents_def getDailyUsageRange_def Let_def sortByDateDesc_def
        calculateProductivityScore_def calculateCurrentStreak_def)
  then show ?thesis using updateUserAnalytics_result[of e items s] assms(2) by simp
qed

text \<open>
  C8: the snapshot is written as one whole object, but the fail-safe of the claim does not
  hold on the code. \<open>saveUserAnalytics\<close> rethrows a failed write, and then the stored
  snapshot is unchanged; the reads of the recomputation, \<open>getEvents\<close> and
  \<open>getDailyUsageRange\<close>, swallow their failure. The store holds two searches and the
  daily row of their day, and a first recomputation stored a snapshot with
  \<open>searchesPerformed = 2\<close> and that row. A second recomputation whose reads fail returns
  a snapshot (no error) with \<open>searchesPerformed = 0\<close> and no daily rows, and that
  snapshot has replaced the valid one, while the two searches are still in the store.
\<close>

theorem updateUserAnalytics_overwrites_after_failed_reads:
  "map_option searchesPerformed (user_analytics_current (storageService busy_after)) = Some 2 \<and>
   map_option (map searchCount \<circ> dailyUsage) (user_analytics_current (storageService busy_after))
     = Some [2] \<and>
   map_sum id searchesPerformed (snd (updateUserAnalytics reads_down one_note busy_after))
     = Inr 0 \<and>
   map_sum id dailyUsage (snd (updateUserAnalytics reads_down one_note busy_after)) = Inr [] \<and>
   map_option searchesPerformed
     (user_analytics_current
        (storageService (fst (updateUserAnalytics reads_down one_note busy_after)))) = Some 0 \<and>
   map_option dailyUsage
     (user_analytics_current
        (storageService (fst (updateUserAnalytics reads_down one_note busy_after)))) = Some [] \<and>
   events_tbl (storageService (fst (updateUserAnalytics reads_down one_note busy_after)))
     = two_searches"
proof -
  let ?first = "recomputed (store_up 0) one_note (storageService busy_service)"
  have up: "writable (store_up 0)" by (simp add: store_up_def)
  have down: "\<not> readable reads_down" "writable reads_down" by (simp_all add: reads_down_def)
  have st: "storageService busy_after
      = (storageService busy_service)\<lparr>user_analytics_current := Some ?first\<rparr>"
    using updateUserAnalytics_result[of "store_up 0" one_note busy_service] up
    by (simp add: busy_after_def)
  have f: "searchesPerformed ?first = 2 \<and> map searchCount (dailyUsage ?first) = [2]"
    by code_simp
  from updateUserAnalytics_reads_fail[OF down, of one_note busy_after] obtain a where
    a: "snd (updateUserAnalytics reads_down one_note busy_after) = Inr a"
       "user_analytics_current
          (storageService (fst (updateUserAnalytics reads_down one_note busy_after))) = Some a"
       "searchesPerformed a = 0" "dailyUsage a = []"
    by blast
  have ev: "events_tbl (storageService (fst (updateUserAnalytics reads_down one_note busy_after)))
      = two_searches"
    using updateUserAnalytics_result[of reads_down one_note busy_after] down(2) st
    by (simp add: busy_service_def)
  show ?thesis using st f a ev by simp
qed

subsection \<open>Milestones\<close>

lemma set_push_milestones:
  "set (push_milestones hit mk xs acc) = set acc \<union> mk ` {x \<in> set xs. hit x}"
  by (induction xs arbitrary: acc) auto

lemma set_checkMilestones:
  "set (checkMilestones ua) =
     items_ms ` {t \<in> set contentMilestones. totalItems ua = real t} \<union>
     streak_ms ` {t \<in> set streakMilestones. streakDays ua = real t} \<union>
     searches_ms ` {t \<in> set searchMilestones. searchesPerformed ua = real t}"
  by (simp add: checkMilestones_def Let_def set_push_milestones)

lemma has_items_milestone: "has_milestone (checkMilestones ua) items_milestone t
    = (t \<in> set contentMilestones \<and> totalItems ua = real t)"
  by (auto simp add: has_milestone_def set_checkMilestones bex_Un items_ms_def streak_ms_def searches_ms_def)

lemma has_streak_milestone: "has_milestone (checkMilestones ua) streak_milestone t
    = (t \<in> set streakMilestones \<and> streakDays ua = real t)"
  by (auto simp add: has_milestone_def set_checkMilestones bex_Un items_ms_def streak_ms_def searches_ms_def)

lemma has_search_milestone: "has_milestone (checkMilestones ua) search_milestone t
    = (t \<in> set searchMilestones \<and> searchesPerformed ua = real t)"
  by (auto simp add: has_milestone_def set_checkMilestones bex_Un items_ms_def streak_ms_def searches_ms_def)

lemma set_detectMilestones:
  "set (detectMilestones ua evs) =
     (case find (\<lambda>event. type_ev event = voice_recording_completed) evs of
        Some firstRecording \<Rightarrow>
          {\<lparr>id_ms = ''first_recording'', type_ms = first_recording,
            title_ms = ''First Voice Recording'', value_ms = 1\<rparr>}
      | None \<Rightarrow> {}) \<union>
     items_ms ` {t \<in> set itemMilestones. totalItems ua \<ge> real t} \<union>
     streak_ms ` {t \<in> set streakMilestones'. streakDays ua \<ge> real t}"
  by (simp add: detectMilestones_def Let_def set_push_milestones split: option.splits)

lemma detect_items_milestone: "has_milestone (detectMilestones ua evs) items_milestone t
    = (t \<in> set itemMilestones \<and> totalItems ua \<ge> real t)"
  by (auto simp add: has_milestone_def set_detectMilestones bex_Un items_ms_def streak_ms_def
      split: option.splits)

lemma detect_streak_milestone: "has_milestone (detectMilestones ua evs) streak_milestone t
    = (t \<in> set streakMilestones' \<and> streakDays ua \<ge> real t)"
  by (auto simp add: has_milestone_def set_detectMilestones bex_Un items_ms_def streak_ms_def
      split: option.splits)

lemma detect_search_milestone: "\<not> has_milestone (detectMilestones ua evs) search_milestone t"
  by (auto simp add: has_milestone_def set_detectMilestones bex_Un items_ms_def streak_ms_def
      split: option.splits)

text \<open>
  C9, as stated, fails: milestone detection is not fire-once. Both functions are
  functions of the snapshot alone and nothing records which milestones were generated. A
  snapshot with 50 items makes \<open>checkMilestones\<close> generate the milestone (items, 50); on a
  later, different snapshot that still has 50 items it is generated again. With 51 items,
  strictly past the threshold, \<open>detectMilestones\<close> still generates it.
\<close>

theorem milestone_generated_again:
  "has_milestone (checkMilestones fifty_items) items_milestone 50 \<and>
   fifty_items\<lparr>searchesPerformed := 7\<rparr> \<noteq> fifty_items \<and>
   has_milestone (checkMilestones (fifty_items\<lparr>searchesPerformed := 7\<rparr>)) items_milestone 50 \<and>
   totalItems (fifty_items\<lparr>totalItems := 51\<rparr>) > 50 \<and>
   has_milestone (detectMilestones (fifty_items\<lparr>totalItems := 51\<rparr>) []) items_milestone 50"
  by (simp add: has_items_milestone detect_items_milestone fifty_items_def initialAnalytics_def
      contentMilestones_def itemMilestones_def)

text \<open>
  C9 (amended): milestone detection is stateless. For every threshold \<open>t\<close>,
  \<open>checkMilestones\<close> generates the milestone keyed by (items, \<open>t\<close>), (streak, \<open>t\<close>) or
  (search, \<open>t\<close>) on exactly those evaluations where \<open>t\<close> is in the content-count,
  streak-count or search-count checkpoint list and the snapshot metric equals \<open>t\<close>: on
  every evaluation while the metric stays at \<open>t\<close>, and on none once the metric is
  strictly past \<open>t\<close>. \<open>detectMilestones\<close> generates the milestone keyed by (items, \<open>t\<close>)
  or (streak, \<open>t\<close>) on exactly those evaluations where \<open>t\<close> is in its item list
  10, 25, 50, 100, 250, 500, 1000 or its streak list 7, 14, 30, 60, 100 and the snapshot
  metric is at least \<open>t\<close>, so also when the metric is strictly past \<open>t\<close>; it generates
  no search milestone.
\<close>

theorem milestone_generation_is_stateless:
  "has_milestone (checkMilestones ua) items_milestone t
     = (t \<in> set contentMilestones \<and> totalItems ua = real t) \<and>
   has_milestone (checkMilestones ua) streak_milestone t
     = (t \<in> set streakMilestones \<and> streakDays ua = real t) \<and>
   has_milestone (checkMilestones ua) search_milestone t
     = (t \<in> set searchMilestones \<and> searchesPerformed ua = real t) \<and>
   has_milestone (detectMilestones ua evs) items_milestone t
     = (t \<in> set itemMilestones \<and> totalItems ua \<ge> real t) \<and>
   has_milestone (detectMilestones ua evs) streak_milestone t
     = (t \<in> set streakMilestones' \<and> streakDays ua \<ge> real t) \<and>
   \<not> has_milestone (detectMilestones ua evs) search_milestone t \<and>
   contentMilestones = [1, 5, 10, 25, 50, 100, 250, 500, 1000] \<and>
   streakMilestones = [3, 7, 14, 30, 60, 100, 365] \<and>
   searchMilestones = [10, 50, 100, 500, 1000] \<and>
   itemMilestones = [10, 25, 50, 100, 250, 500, 1000] \<and>
   streakMilestones' = [7, 14, 30, 60, 100]"
  using has_items_milestone[of ua t] has_streak_milestone[of ua t] has_search_milestone[of ua t]
    detect_items_milestone[of ua evs t] detect_streak_milestone[of ua evs t]
    detect_search_milestone[of ua evs t]
  by (simp add: contentMilestones_def streakMilestones_def searchMilestones_def
      itemMilestones_def streakMilestones'_def)

subsection \<open>Goal completion\<close>

lemma tables_updateRealTimeMetrics [simp]:
  "goals_tbl (updateRealTimeMetrics e ev d) = goals_tbl d"
  "insights_tbl (updateRealTimeMetrics e ev d) = insights_tbl d"
  "user_analytics_current (updateRealTimeMetrics e ev d) = user_analytics_current d"
  by (simp_all add: updateRealTimeMetrics_def saveDailyUsage_def Let_def)

lemma tables_trackEvent_storage [simp]:
  "goals_tbl (trackEvent_storage e ty dat d) = goals_tbl d"
  "insights_tbl (trackEvent_storage e ty dat d) = insights_tbl d"
  "user_analytics_current (trackEvent_storage e ty dat d) = user_analytics_current d"
  by (simp_all add: trackEvent_storage_def Let_def)

lemma gce_trackEvent_storage:
  "goal_completed_events gid (trackEvent_storage e ty dat d) =
     goal_completed_events gid d
       + (if writable e \<and> ty = goal_completed \<and> goalId dat = Some gid then 1 else 0)"
  by (simp add: goal_completed_events_def trackEvent_storage_def Let_def)

lemma gce_snapshot [simp]:
  "goal_completed_events gid (d\<lparr>user_analytics_current := x\<rparr>) = goal_completed_events gid d"
  "goal_completed_events gid (d\<lparr>insights_tbl := y\<rparr>) = goal_completed_events gid d"
  "goal_completed_events gid (d\<lparr>goals_tbl := z\<rparr>) = goal_completed_events gid d"
  by (simp_all add: goal_completed_events_def)

text \<open>\<open>awardXP\<close> adds the amount to the engine's XP before it touches the store, whether or
  not the store accepts the writes that follow.\<close>

lemma awardXP_adds:
  "userXP (fst (awardXP e amount g)) = fadd (userXP g) amount \<and>
   goals_tbl (storage (fst (awardXP e amount g))) = goals_tbl (storage g) \<and>
   insights_tbl (storage (fst (awardXP e amount g))) = insights_tbl (storage g)"
  by (auto simp add: awardXP_def Let_def saveUserAnalytics_def split: option.splits)

lemma awardXP_writable:
  assumes "writable e"
  shows "\<exists>g1 r. awardXP e amount g = (g1, Inr r) \<and> userXP g1 = fadd (userXP g) amount \<and>
           goals_tbl (storage g1) = goals_tbl (storage g) \<and>
           insights_tbl (storage g1) = insights_tbl (storage g) \<and>
           goal_completed_events gid (storage g1) = goal_completed_events gid (storage g)"
  using assms
  by (auto simp add: awardXP_def Let_def saveUserAnalytics_def gce_trackEvent_storage
      split: option.splits)

lemma unlockAchievement_writable:
  assumes "writable e"
  shows "\<exists>g1. unlockAchievement e a x g = (g1, Inr ()) \<and> userXP g1 = fadd (userXP g) x \<and>
           goals_tbl (storage g1) = goals_tbl (storage g) \<and>
           insights_tbl (storage g1) =
             put_insight \<lparr>id_ins = ''achievement_'' @ id_ach a, type_ins = productivity_trend,
                title_ins = ''Achievement Unlocked: '' @ title_ach a, impact = high,
                category_ins = ''Achievements'', actionable = False, relatedMetrics = []\<rparr>
               (insights_tbl (storage g)) \<and>
           goal_completed_events gid (storage g1) = goal_completed_events gid (storage g)"
proof -
  let ?i = "\<lparr>id_ins = ''achievement_'' @ id_ach a, type_ins = productivity_trend,
                title_ins = ''Achievement Unlocked: '' @ title_ach a, impact = high,
                category_ins = ''Achievements'', actionable = False, relatedMetrics = []\<rparr>"
  let ?g0 = "g\<lparr>storage := (storage g)\<lparr>insights_tbl := put_insight ?i (insights_tbl (storage g))\<rparr>\<rparr>"
  from awardXP_writable[OF assms, of x ?g0 gid] obtain g1 r where
    a: "awardXP e x ?g0 = (g1, Inr r)" and
    p: "userXP g1 = fadd (userXP ?g0) x" "goals_tbl (storage g1) = goals_tbl (storage ?g0)"
       "insights_tbl (storage g1) = insights_tbl (storage ?g0)"
       "goal_completed_events gid (storage g1) = goal_completed_events gid (storage ?g0)"
    by blast
  show ?thesis using assms a p
    by (simp add: unlockAchievement_def saveInsight_def gce_trackEvent_storage)
qed

lemma unlockAchievement_unwritable:
  "\<not> writable e \<Longrightarrow> unlockAchievement e a x g = (g, Inl StoreError)"
  by (simp add: unlockAchievement_def saveInsight_def)

lemma checkGoalAchievements_up:
  assumes "readable e" "writable e"
  shows "\<exists>g1. checkGoalAchievements e goal g = (g1, Inr ()) \<and>
           userXP g1 = foldl fadd (userXP g) (goal_rewards (storage g)) \<and>
           goals_tbl (storage g1) = goals_tbl (storage g) \<and>
           goal_completed_events gid (storage g1) = goal_completed_events gid (storage g)"
proof -
  let ?a1 = "\<lparr>id_ach = ''first_goal'', title_ach = ''Goal Getter'', category_ach = ''Goals'',
                       progress = 1, maxProgress = 1, unlocked = True, unlockedAt = clock e,
                       rarity_ach = common\<rparr>"
  let ?a2 = "\<lparr>id_ach = ''goal_master'', title_ach = ''Goal Master'', category_ach = ''Goals'',
                      progress = 10, maxProgress = 10, unlocked = True, unlockedAt = clock e,
                      rarity_ach = rare\<rparr>"
  from unlockAchievement_writable[OF assms(2), of ?a1 150 g gid] obtain g1 where
    u1: "unlockAchievement e ?a1 150 g = (g1, Inr ())" "userXP g1 = fadd (userXP g) 150"
        "goals_tbl (storage g1) = goals_tbl (storage g)"
        "goal_completed_events gid (storage g1) = goal_completed_events gid (storage g)"
    by blast
  from unlockAchievement_writable[OF assms(2), of ?a2 500 g gid] obtain g2 where
    u2: "unlockAchievement e ?a2 500 g = (g2, Inr ())" "userXP g2 = fadd (userXP g) 500"
        "goals_tbl (storage g2) = goals_tbl (storage g)"
        "goal_completed_events gid (storage g2) = goal_completed_events gid (storage g)"
    by blast
  show ?thesis using assms(1) u1 u2
    by (simp add: checkGoalAchievements_def getGoals_def Let_def goal_rewards_def)
qed

lemma checkGoalAchievements_unwritable:
  "\<not> writable e \<Longrightarrow>
     fst (checkGoalAchievements e goal g) = g \<and>
     (snd (checkGoalAchievements e goal g) = Inr () \<or>
      snd (checkGoalAchievements e goal g) = Inl StoreError)"
  by (simp add: checkGoalAchievements_def Let_def unlockAchievement_unwritable)

lemma find_SomeD: "find P xs = Some x \<Longrightarrow> x \<in> set xs \<and> P x"
  by (induction xs) (auto split: if_splits)

lemma find_map_update:
  "find (\<lambda>x. id_goal x = k) gs = Some goal \<Longrightarrow>
   (\<And>x. id_goal (f x) = id_goal x) \<Longrightarrow>
   find (\<lambda>x. id_goal x = k) (map (\<lambda>x. if id_goal x = k then f x else x) gs) = Some (f goal)"
  by (induction gs) (auto split: if_splits)

lemma id_apply_updates [simp]: "id_goal (apply_updates u x) = id_goal x"
  by (simp add: apply_updates_def Let_def split: option.splits)

lemma updateGoal_writable:
  assumes "writable e"
  shows "\<exists>d1. updateGoal e k u d = Inr d1 \<and>
           goals_tbl d1 = map (\<lambda>x. if id_goal x = k then apply_updates u x else x) (goals_tbl d) \<and>
           goal_completed_events k d1 =
             goal_completed_events k d + (if u_status u = Some completed then 1 else 0)"
  using assms
  by (simp add: updateGoal_def Let_def gce_trackEvent_storage)

text \<open>With the store reachable, the first qualifying call completes the goal, awards the
  XP and stores \<open>goal_completed\<close> twice: once by the engine, once by \<open>updateGoal\<close>.\<close>

lemma updateGoalProgress_first:
  assumes up: "readable e" "writable e"
      and f: "find (\<lambda>x. id_goal x = k) (goals_tbl (storage g)) = Some goal"
      and nc: "status goal \<noteq> completed" and ge: "v \<ge> target goal"
  shows "snd (updateGoalProgress e k v g) = Inr True \<and>
         find (\<lambda>x. id_goal x = k) (goals_tbl (storage (fst (updateGoalProgress e k v g))))
            = Some (goal\<lparr>current := v, status := completed\<rparr>) \<and>
         userXP (fst (updateGoalProgress e k v g))
            = foldl fadd (userXP g) (calculateGoalXP goal # goal_rewards (storage g)) \<and>
         goal_completed_events k (storage (fst (updateGoalProgress e k v g)))
            = goal_completed_events k (storage g) + 2"
proof -
  have idg: "id_goal goal = k" using find_SomeD[OF f] by simp
  from awardXP_writable[OF up(2), of "calculateGoalXP goal" g k] obtain g1 r where
    a: "awardXP e (calculateGoalXP goal) g = (g1, Inr r)"
       "userXP g1 = fadd (userXP g) (calculateGoalXP goal)"
       "goals_tbl (storage g1) = goals_tbl (storage g)"
       "goal_completed_events k (storage g1) = goal_completed_events k (storage g)"
    by blast
  let ?g2 = "g1\<lparr>storage := trackEvent_storage e goal_completed
                 (noData\<lparr>goalId := Some (id_goal goal), currentValue := Some v\<rparr>) (storage g1)\<rparr>"
  have g2: "userXP ?g2 = userXP g1" "goals_tbl (storage ?g2) = goals_tbl (storage g)"
       "goal_completed_events k (storage ?g2) = goal_completed_events k (storage g) + 1"
    using a up idg by (simp_all add: gce_trackEvent_storage)
  have gx: "goal_rewards (storage ?g2) = goal_rewards (storage g)"
    using g2 by (simp add: goal_rewards_def)
  from checkGoalAchievements_up[OF up, of goal ?g2 k] obtain g3 where
    c: "checkGoalAchievements e goal ?g2 = (g3, Inr ())"
       "userXP g3 = foldl fadd (userXP ?g2) (goal_rewards (storage ?g2))"
       "goals_tbl (storage g3) = goals_tbl (storage ?g2)"
       "goal_completed_events k (storage g3) = goal_completed_events k (storage ?g2)"
    by blast
  let ?u = "\<lparr>u_current = Some v, u_status = Some completed\<rparr>"
  from updateGoal_writable[OF up(2), of k ?u "storage g3"] obtain d where
    d: "updateGoal e k ?u (storage g3) = Inr d"
       "goals_tbl d = map (\<lambda>x. if id_goal x = k then apply_updates ?u x else x) (goals_tbl (storage g3))"
       "goal_completed_events k d = goal_completed_events k (storage g3) + 1"
    by auto
  have res: "updateGoalProgress e k v g = (g3\<lparr>storage := d\<rparr>, Inr True)"
    using up f nc ge a c d by (simp add: updateGoalProgress_def getGoals_def Let_def)
  have fd: "find (\<lambda>x. id_goal x = k) (goals_tbl d) = Some (apply_updates ?u goal)"
    unfolding d(2) c(3) g2(2) by (rule find_map_update[OF f]) simp
  show ?thesis unfolding res using fd a c d g2 gx
    by (simp add: apply_updates_def)
qed

lemma updateGoalProgress_again:
  assumes up: "readable e" "writable e"
      and f: "find (\<lambda>x. id_goal x = k) (goals_tbl (storage g)) = Some goal"
      and c: "status goal = completed"
  shows "snd (updateGoalProgress e k v g) = Inr False \<and>
         userXP (fst (updateGoalProgress e k v g)) = userXP g \<and>
         userLevel (fst (updateGoalProgress e k v g)) = userLevel g \<and>
         events_tbl (storage (fst (updateGoalProgress e k v g))) = events_tbl (storage g) \<and>
         find (\<lambda>x. id_goal x = k) (goals_tbl (storage (fst (updateGoalProgress e k v g))))
            = Some (goal\<lparr>current := v\<rparr>)"
proof -
  let ?u = "\<lparr>u_current = Some v, u_status = None\<rparr>"
  have res: "updateGoalProgress e k v g
      = (g\<lparr>storage := (storage g)\<lparr>goals_tbl :=
            map (\<lambda>x. if id_goal x = k then apply_updates ?u x else x) (goals_tbl (storage g))\<rparr>\<rparr>, Inr False)"
    using up f c by (simp add: updateGoalProgress_def getGoals_def Let_def updateGoal_def)
  have fd: "find (\<lambda>x. id_goal x = k)
       (map (\<lambda>x. if id_goal x = k then apply_updates ?u x else x) (goals_tbl (storage g)))
        = Some (apply_updates ?u goal)"
    by (rule find_map_update[OF f]) simp
  show ?thesis unfolding res using fd by (simp add: apply_updates_def)
qed

text \<open>
  When the store rejects the writes, the first qualifying call has already added the XP
  when \<open>updateGoal\<close> (or an earlier write) throws: the call fails, the XP stays awarded
  and the goal keeps its status, so the next call qualifies again.
\<close>

lemma updateGoalProgress_write_fails:
  assumes dn: "readable e" "\<not> writable e"
      and f: "find (\<lambda>x. id_goal x = k) (goals_tbl (storage g)) = Some goal"
      and nc: "status goal \<noteq> completed" and ge: "v \<ge> target goal"
  shows "snd (updateGoalProgress e k v g) = Inl StoreError \<and>
         userXP (fst (updateGoalProgress e k v g)) = fadd (userXP g) (calculateGoalXP goal) \<and>
         goals_tbl (storage (fst (updateGoalProgress e k v g))) = goals_tbl (storage g)"
proof -
  let ?x = "calculateGoalXP goal"
  obtain g1 r1 where a: "awardXP e ?x g = (g1, r1)" by fastforce
  have g1: "userXP g1 = fadd (userXP g) ?x" "goals_tbl (storage g1) = goals_tbl (storage g)"
    using awardXP_adds[of e ?x g] a by simp_all
  have r1: "r1 = Inl StoreError \<or> (\<exists>r. r1 = Inr r)"
    using a dn(2)
    by (auto simp add: awardXP_def Let_def saveUserAnalytics_def split: option.splits)
  let ?g2 = "g1\<lparr>storage := trackEvent_storage e goal_completed
                 (noData\<lparr>goalId := Some (id_goal goal), currentValue := Some v\<rparr>) (storage g1)\<rparr>"
  have g2: "?g2 = g1" using dn(2) by (simp add: trackEvent_storage_def)
  note c = checkGoalAchievements_unwritable[OF dn(2), of goal g1]
  have u: "\<And>u d. updateGoal e k u d = Inl StoreError" using dn(2) by (simp add: updateGoal_def)
  show ?thesis
  proof (cases r1)
    case (Inl err)
    then show ?thesis using a r1 g1 dn(1) f nc ge
      by (simp add: updateGoalProgress_def getGoals_def Let_def)
  next
    case (Inr r)
    obtain g3 r3 where c3: "checkGoalAchievements e goal g1 = (g3, r3)" by fastforce
    then have g3: "g3 = g1" "r3 = Inr () \<or> r3 = Inl StoreError" using c by simp_all
    show ?thesis
    proof (cases r3)
      case (Inl err)
      then show ?thesis using a Inr g1 g2 c3 g3 dn(1) f nc ge
        by (simp add: updateGoalProgress_def getGoals_def Let_def)
    next
      case (Inr r')
      then show ?thesis using a \<open>r1 = Inr r\<close> g1 g2 c3 g3 u dn(1) f nc ge
        by (simp add: updateGoalProgress_def getGoals_def Let_def)
    qed
  qed
qed

text \<open>The Aggregator's pass-through has no test of the status: every call with a value at
  or above the target stores another \<open>goal_completed\<close> event.\<close>

lemma updateGoalProgress_service_refires:
  assumes "readable e" "writable e" "initialized s"
      and "find (\<lambda>x. id_goal x = k) (goals_tbl (storageService s)) = Some goal"
      and "v \<ge> target goal"
  shows "goal_completed_events k (storageService (fst (updateGoalProgress_service e k v s)))
           = goal_completed_events k (storageService s) + 1 \<and>
         initialized (fst (updateGoalProgress_service e k v s)) \<and>
         find (\<lambda>x. id_goal x = k) (goals_tbl (storageService (fst (updateGoalProgress_service e k v s))))
           = Some (goal\<lparr>current := v, status := completed\<rparr>)"
proof -
  let ?u = "\<lparr>u_current = Some v, u_status = Some completed\<rparr>"
  have fd: "find (\<lambda>x. id_goal x = k)
       (map (\<lambda>x. if id_goal x = k then apply_updates ?u x else x) (goals_tbl (storageService s)))
        = Some (apply_updates ?u goal)"
    by (rule find_map_update[OF assms(4)]) simp
  show ?thesis using assms fd
    by (simp add: updateGoalProgress_service_def getGoals_def Let_def updateGoal_def
        gce_trackEvent_storage apply_updates_def)
qed

lemma challenge_xp:
  "calculateGoalXP challenge_goal = 120 \<and> fadd 0 120 = 120 \<and> fadd 120 120 = 240"
  by code_simp

text \<open>The XP of a goal is rounded from a product of doubles: a goal with target 10.7 and
  high priority gives 160, where the product over the reals is 160.5.\<close>

lemma calculateGoalXP_double_rounding:
  "calculateGoalXP (challenge_goal\<lparr>target := rnd 10.7, priority := high\<rparr>) = 160"
  by code_simp

text \<open>
  C3: the claim fails on the code, which does not complete a goal exactly once.
  (1) \<open>GamificationService.updateGoalProgress\<close> awards the XP before it stores the new
  status. The daily challenge "record 3 voice notes" (target 3, medium priority, XP 120)
  reaches the value 3 while the store rejects writes: the call fails, the user has 120 XP
  and the goal is still active; the next call, with the store back, awards 120 XP again.
  (2) With the store reachable, one completion stores \<open>goal_completed\<close> twice.
  (3) \<open>AnalyticsService.updateGoalProgress\<close> has no test of the status: a second call
  with the same value stores \<open>goal_completed\<close> again.
\<close>

theorem updateGoalProgress_not_exactly_once:
  "snd (updateGoalProgress writes_down ''goal_1'' 3 engine_with_goal) = Inl StoreError \<and>
   userXP (fst (updateGoalProgress writes_down ''goal_1'' 3 engine_with_goal)) = 120 \<and>
   map status (goals_tbl (storage (fst (updateGoalProgress writes_down ''goal_1'' 3 engine_with_goal))))
     = [active] \<and>
   snd (updateGoalProgress (store_up 0) ''goal_1'' 3
          (fst (updateGoalProgress writes_down ''goal_1'' 3 engine_with_goal))) = Inr True \<and>
   userXP (fst (updateGoalProgress (store_up 0) ''goal_1'' 3
          (fst (updateGoalProgress writes_down ''goal_1'' 3 engine_with_goal)))) = 240 \<and>
   goal_completed_events ''goal_1''
     (storage (fst (updateGoalProgress (store_up 0) ''goal_1'' 3 engine_with_goal))) = 2 \<and>
   goal_completed_events ''goal_1''
     (storageService (fst (updateGoalProgress_service (store_up 0) ''goal_1'' 3 service_with_goal)))
     = 1 \<and>
   goal_completed_events ''goal_1''
     (storageService (fst (updateGoalProgress_service (store_up 1) ''goal_1'' 3
        (fst (updateGoalProgress_service (store_up 0) ''goal_1'' 3 service_with_goal))))) = 2"
proof -
  let ?g1 = "fst (updateGoalProgress writes_down ''goal_1'' 3 engine_with_goal)"
  let ?s1 = "fst (updateGoalProgress_service (store_up 0) ''goal_1'' 3 service_with_goal)"
  have up: "readable (store_up 0)" "writable (store_up 0)" "readable (store_up 1)"
      "writable (store_up 1)"
    by (simp_all add: store_up_def)
  have dn: "readable writes_down" "\<not> writable writes_down" by (simp_all add: writes_down_def)
  have f: "find (\<lambda>x. id_goal x = ''goal_1'') (goals_tbl (storage engine_with_goal))
             = Some challenge_goal"
    by (simp add: engine_with_goal_def new_engine_def empty_db_def challenge_goal_def)
  have g: "status challenge_goal \<noteq> completed" "3 \<ge> target challenge_goal"
    by (simp_all add: challenge_goal_def)
  have x0: "userXP engine_with_goal = 0" "goal_rewards (storage engine_with_goal) = []"
      "goal_completed_events ''goal_1'' (storage engine_with_goal) = 0"
    by (simp_all add: engine_with_goal_def new_engine_def empty_db_def challenge_goal_def
        goal_rewards_def goal_completed_events_def)
  note fail = updateGoalProgress_write_fails[OF dn f g]
  have f1: "find (\<lambda>x. id_goal x = ''goal_1'') (goals_tbl (storage ?g1)) = Some challenge_goal"
    using fail f by simp
  have r1: "goal_rewards (storage ?g1) = []" using fail x0(2) by (simp add: goal_rewards_def)
  note second = updateGoalProgress_first[OF up(1,2) f1 g]
  note normal = updateGoalProgress_first[OF up(1,2) f g]
  have fs: "find (\<lambda>x. id_goal x = ''goal_1'') (goals_tbl (storageService service_with_goal))
             = Some challenge_goal"
      "initialized service_with_goal"
      "goal_completed_events ''goal_1'' (storageService service_with_goal) = 0"
    by (simp_all add: service_with_goal_def empty_db_def challenge_goal_def
        goal_completed_events_def)
  note s1 = updateGoalProgress_service_refires[OF up(1,2) fs(2) fs(1) g(2)]
  have t1: "3 \<ge> target (challenge_goal\<lparr>current := 3, status := completed\<rparr>)"
    by (simp add: challenge_goal_def)
  have s1i: "initialized ?s1" using s1 by simp
  have s1f: "find (\<lambda>x. id_goal x = ''goal_1'') (goals_tbl (storageService ?s1))
      = Some (challenge_goal\<lparr>current := 3, status := completed\<rparr>)" using s1 by simp
  note s2 = updateGoalProgress_service_refires[OF up(3,4) s1i s1f t1]
  have a: "snd (updateGoalProgress writes_down ''goal_1'' 3 engine_with_goal) = Inl StoreError"
    using fail by simp
  have b: "userXP ?g1 = 120" using fail x0(1) challenge_xp by simp
  have c: "map status (goals_tbl (storage ?g1)) = [active]"
    using fail by (simp add: engine_with_goal_def new_engine_def empty_db_def challenge_goal_def)
  have d: "snd (updateGoalProgress (store_up 0) ''goal_1'' 3 ?g1) = Inr True"
    using second by simp
  have e: "userXP (fst (updateGoalProgress (store_up 0) ''goal_1'' 3 ?g1)) = 240"
    using second r1 b challenge_xp by simp
  have h: "goal_completed_events ''goal_1''
     (storage (fst (updateGoalProgress (store_up 0) ''goal_1'' 3 engine_with_goal))) = 2"
    using normal x0(3) by simp
  have i: "goal_completed_events ''goal_1'' (storageService ?s1) = 1" using s1 fs(3) by simp
  have j: "goal_completed_events ''goal_1''
     (storageService (fst (updateGoalProgress_service (store_up 1) ''goal_1'' 3 ?s1))) = 2"
    using s2 i by simp
  show ?thesis using a b c d e h i j by simp
qed

subsection \<open>Achievements\<close>

lemma replace_first_prefix: "replace_first p [] (p @ s) = s"
proof (cases "p @ s")
  case Nil
  then show ?thesis by simp
next
  case (Cons c cs)
  have "prefix p (c # cs)" using Cons by (metis prefixI)
  then have "replace_first p [] (c # cs) = drop (length p) (c # cs)" by simp
  then show ?thesis using Cons by (metis append_eq_conv_conj)
qed

lemma unlocked_in_put:
  "category_ins i = ''Achievements'' \<Longrightarrow>
     unlocked_in (put_insight i tbl)
       = insert (replace_first ''achievement_'' [] (id_ins i)) (unlocked_in tbl)"
  by (induction tbl) (auto simp: unlocked_in_def)

text \<open>What a call reads as already unlocked: the ids that the store records, or nothing
  when the read fails.\<close>

lemma unlocked_ids_readable:
  "readable e \<Longrightarrow> unlocked_ids e g = unlocked_in (insights_tbl (storage g))"
  by (simp add: unlocked_ids_def getUnlockedAchievements_def getInsights_def unlocked_in_def
      comp_def)

lemma unlocked_ids_unreadable: "\<not> readable e \<Longrightarrow> unlocked_ids e g = {}"
  by (simp add: unlocked_ids_def getUnlockedAchievements_def getInsights_def)

text \<open>An achievement passes the requirement check when all of its requirements are met.\<close>

lemma requirements_loop_all:
  "requirements_loop e rs ua evs g
     = list_all (\<lambda>r. getMetricValue e r ua evs g \<ge> value_req r) rs"
  by (induction rs) (auto simp: Let_def)

lemma checkAchievementRequirements_all:
  "checkAchievementRequirements e d ua evs g = all_requirements_met e d ua evs g"
  by (simp add: checkAchievementRequirements_def all_requirements_met_def requirements_loop_all)

lemma getMetricValue_goals:
  "goals_tbl (storage g1) = goals_tbl (storage g) \<Longrightarrow>
     getMetricValue e r ua evs g1 = getMetricValue e r ua evs g"
  by (simp add: getMetricValue_def checkPerfectWeek_def getGoals_def)

lemma all_requirements_met_goals:
  "goals_tbl (storage g1) = goals_tbl (storage g) \<Longrightarrow>
     all_requirements_met e d ua evs g1 = all_requirements_met e d ua evs g"
  by (simp add: all_requirements_met_def getMetricValue_goals[of g1 g])

lemma unlock_in_loop:
  assumes "writable e"
  shows "\<exists>g1. unlockAchievement e a x g = (g1, Inr ()) \<and> userXP g1 = fadd (userXP g) x \<and>
           goals_tbl (storage g1) = goals_tbl (storage g) \<and>
           unlocked_in (insights_tbl (storage g1))
             = insert (id_ach a) (unlocked_in (insights_tbl (storage g)))"
proof -
  from unlockAchievement_writable[OF assms, of a x g "[]"] obtain g1 where
    u: "unlockAchievement e a x g = (g1, Inr ())" "userXP g1 = fadd (userXP g) x"
       "goals_tbl (storage g1) = goals_tbl (storage g)"
       "insights_tbl (storage g1) =
             put_insight \<lparr>id_ins = ''achievement_'' @ id_ach a, type_ins = productivity_trend,
                title_ins = ''Achievement Unlocked: '' @ title_ach a, impact = high,
                category_ins = ''Achievements'', actionable = False, relatedMetrics = []\<rparr>
               (insights_tbl (storage g))"
    by blast
  let ?i = "\<lparr>id_ins = ''achievement_'' @ id_ach a, type_ins = productivity_trend,
                title_ins = ''Achievement Unlocked: '' @ title_ach a, impact = high,
                category_ins = ''Achievements'', actionable = False, relatedMetrics = []\<rparr>"
  have "unlocked_in (insights_tbl (storage g1))
      = insert (replace_first ''achievement_'' [] (id_ins ?i)) (unlocked_in (insights_tbl (storage g)))"
    unfolding u(4) by (rule unlocked_in_put) simp
  moreover have "replace_first ''achievement_'' [] (id_ins ?i) = id_ach a"
    using replace_first_prefix[of "''achievement_''" "id_ach a"] by simp
  ultimately show ?thesis using u(1,2,3) by simp
qed

text \<open>The loop over the catalog, when the store accepts the writes: it unlocks, in catalog
  order, the definitions whose id is not among the ids read before the loop and whose
  requirements are met, and adds their rewards.\<close>

lemma check_loop_up:
  assumes up: "writable e"
      and ne: "\<forall>d\<in>set ds. requirements d \<noteq> []"
  shows "\<exists>g' news.
           check_loop e ua evs ex ds g acc = (g', Inr (acc @ news)) \<and>
           map id_ach news
             = map id_def (filter (\<lambda>d. id_def d \<notin> set ex \<and> all_requirements_met e d ua evs g) ds) \<and>
           userXP g' = foldl fadd (userXP g)
                 (map xpReward
                    (filter (\<lambda>d. id_def d \<notin> set ex \<and> all_requirements_met e d ua evs g) ds)) \<and>
           goals_tbl (storage g') = goals_tbl (storage g) \<and>
           unlocked_in (insights_tbl (storage g'))
             = unlocked_in (insights_tbl (storage g)) \<union> set (map id_ach news)"
  using ne
proof (induction ds arbitrary: g acc)
  case Nil
  show ?case by simp
next
  case (Cons d ds)
  have ne': "\<forall>d\<in>set ds. requirements d \<noteq> []" using Cons.prems by simp
  show ?case
  proof (cases "id_def d \<notin> set ex \<and> all_requirements_met e d ua evs g")
    case False
    from Cons.IH[OF ne', of g acc] obtain g' news where
      ih: "check_loop e ua evs ex ds g acc = (g', Inr (acc @ news))"
          "map id_ach news
             = map id_def (filter (\<lambda>d. id_def d \<notin> set ex \<and> all_requirements_met e d ua evs g) ds)"
          "userXP g' = foldl fadd (userXP g)
                 (map xpReward
                    (filter (\<lambda>d. id_def d \<notin> set ex \<and> all_requirements_met e d ua evs g) ds))"
          "goals_tbl (storage g') = goals_tbl (storage g)"
          "unlocked_in (insights_tbl (storage g'))
             = unlocked_in (insights_tbl (storage g)) \<union> set (map id_ach news)"
      by blast
    have step: "check_loop e ua evs ex (d # ds) g acc = check_loop e ua evs ex ds g acc"
      using False by (auto simp: checkAchievementRequirements_all)
    show ?thesis
      apply (rule exI[of _ g'])
      apply (rule exI[of _ news])
      using step ih False by simp
  next
    case True
    obtain r0 rs where r: "requirements d = r0 # rs"
      using Cons.prems by (cases "requirements d") auto
    let ?a = "\<lparr>id_ach = id_def d, title_ach = title_def d,
                        category_ach = category_def d, progress = value_req r0,
                        maxProgress = value_req r0, unlocked = True, unlockedAt = clock e,
                        rarity_ach = rarity_def d\<rparr>"
    from unlock_in_loop[OF up, of ?a "xpReward d" g] obtain g1 where
      u: "unlockAchievement e ?a (xpReward d) g = (g1, Inr ())"
         "userXP g1 = fadd (userXP g) (xpReward d)"
         "goals_tbl (storage g1) = goals_tbl (storage g)"
         "unlocked_in (insights_tbl (storage g1))
             = insert (id_ach ?a) (unlocked_in (insights_tbl (storage g)))"
      by blast
    have step: "check_loop e ua evs ex (d # ds) g acc = check_loop e ua evs ex ds g1 (acc @ [?a])"
      using True r u by (simp add: checkAchievementRequirements_all Let_def)
    have same: "\<And>x. all_requirements_met e x ua evs g1 = all_requirements_met e x ua evs g"
      using all_requirements_met_goals[OF u(3)] by simp
    from Cons.IH[OF ne', of g1 "acc @ [?a]"] obtain g' news where
      ih: "check_loop e ua evs ex ds g1 (acc @ [?a]) = (g', Inr ((acc @ [?a]) @ news))"
          "map id_ach news
             = map id_def (filter (\<lambda>d. id_def d \<notin> set ex \<and> all_requirements_met e d ua evs g1) ds)"
          "userXP g' = foldl fadd (userXP g1)
                 (map xpReward
                    (filter (\<lambda>d. id_def d \<notin> set ex \<and> all_requirements_met e d ua evs g1) ds))"
          "goals_tbl (storage g') = goals_tbl (storage g1)"
          "unlocked_in (insights_tbl (storage g'))
             = unlocked_in (insights_tbl (storage g1)) \<union> set (map id_ach news)"
      by blast
    show ?thesis
      apply (rule exI[of _ g'])
      apply (rule exI[of _ "?a # news"])
      using step ih u True by (simp add: same)
  qed
qed

lemma catalog_requirements: "\<forall>d\<in>set achievementDefinitions. requirements d \<noteq> []"
  by (simp add: achievementDefinitions_def adef_def req_def)

lemma checkAchievements_writable:
  assumes up: "writable e"
  shows "\<exists>g' news. checkAchievements e ua evs g = (g', Inr news) \<and>
      map id_ach news = map id_def (newly_unlocked e ua evs g) \<and>
      userXP g' = foldl fadd (userXP g) (map xpReward (newly_unlocked e ua evs g)) \<and>
      goals_tbl (storage g') = goals_tbl (storage g) \<and>
      unlocked_in (insights_tbl (storage g'))
        = unlocked_in (insights_tbl (storage g)) \<union> set (map id_ach news)"
proof -
  let ?ex = "map id_ach (getUnlockedAchievements e (storage g))"
  have ex: "set ?ex = unlocked_ids e g" by (simp add: unlocked_ids_def)
  from check_loop_up[OF up catalog_requirements, of ua evs ?ex g "[]"] obtain g' news where
    l: "check_loop e ua evs ?ex achievementDefinitions g [] = (g', Inr ([] @ news))"
       "map id_ach news
             = map id_def (filter (\<lambda>d. id_def d \<notin> set ?ex \<and> all_requirements_met e d ua evs g)
                   achievementDefinitions)"
       "userXP g' = foldl fadd (userXP g)
                 (map xpReward
                    (filter (\<lambda>d. id_def d \<notin> set ?ex \<and> all_requirements_met e d ua evs g)
                       achievementDefinitions))"
       "goals_tbl (storage g') = goals_tbl (storage g)"
       "unlocked_in (insights_tbl (storage g'))
             = unlocked_in (insights_tbl (storage g)) \<union> set (map id_ach news)"
    by blast
  show ?thesis
    apply (rule exI[of _ g'])
    apply (rule exI[of _ news])
    using l unfolding ex
    by (simp add: checkAchievements_def Let_def newly_unlocked_def)
qed

text \<open>While the store can be read, an id that the store records as unlocked is not
  returned again.\<close>

lemma checkAchievements_skips_unlocked:
  assumes "readable e" and "writable e"
  shows "set (returned_ids (checkAchievements e ua evs g))
           \<inter> unlocked_in (insights_tbl (storage g)) = {}"
proof -
  from checkAchievements_writable[OF assms(2), of ua evs g] obtain g' news where
    c: "checkAchievements e ua evs g = (g', Inr news)"
       "map id_ach news = map id_def (newly_unlocked e ua evs g)"
    by blast
  have "set (map id_def (newly_unlocked e ua evs g)) \<inter> unlocked_ids e g = {}"
    by (auto simp: newly_unlocked_def)
  then show ?thesis using c assms(1) by (simp add: returned_ids_def unlocked_ids_readable)
qed

lemma fifty_items_unlocks:
  "map id_def (newly_unlocked (store_up 0) fifty_items [] new_engine) = [''content_creator''] \<and>
   map xpReward (newly_unlocked (store_up 0) fifty_items [] new_engine) = [500] \<and>
   map id_def (newly_unlocked reads_down fifty_items [] new_engine) = [''content_creator''] \<and>
   map xpReward (newly_unlocked reads_down fifty_items [] new_engine) = [500] \<and>
   unlocked_in (insights_tbl (storage new_engine)) = {} \<and>
   userXP new_engine = 0 \<and> fadd 0 500 = 500 \<and> fadd 500 500 = 1000"
  by code_simp

lemma fifty_items_rest:
  "filter (\<lambda>d. id_def d \<notin> set [''content_creator'']
                \<and> all_requirements_met (store_up 1) d fifty_items [] new_engine)
      achievementDefinitions = []"
  by code_simp

text \<open>
  C4: the claim fails on the code, which unlocks an achievement again. \<open>checkAchievements\<close>
  skips the ids that \<open>getUnlockedAchievements\<close> returns, but \<open>getInsights\<close> catches a
  failed read and answers with the empty list, and the call then takes every achievement
  for locked. A first call on a snapshot with 50 items unlocks \<open>content_creator\<close> and
  awards its 500 XP. A later call with the store reachable returns nothing and awards
  nothing. A later call whose read of the store fails, while its writes succeed, returns
  \<open>content_creator\<close> again and awards 500 XP again.
\<close>

theorem checkAchievements_unlocks_again:
  "returned_ids (checkAchievements (store_up 0) fifty_items [] new_engine)
     = [''content_creator''] \<and>
   userXP (fst (checkAchievements (store_up 0) fifty_items [] new_engine)) = 500 \<and>
   unlocked_in (insights_tbl
      (storage (fst (checkAchievements (store_up 0) fifty_items [] new_engine))))
     = {''content_creator''} \<and>
   returned_ids (checkAchievements (store_up 1) fifty_items []
      (fst (checkAchievements (store_up 0) fifty_items [] new_engine))) = [] \<and>
   userXP (fst (checkAchievements (store_up 1) fifty_items []
      (fst (checkAchievements (store_up 0) fifty_items [] new_engine)))) = 500 \<and>
   returned_ids (checkAchievements reads_down fifty_items []
      (fst (checkAchievements (store_up 0) fifty_items [] new_engine)))
     = [''content_creator''] \<and>
   userXP (fst (checkAchievements reads_down fifty_items []
      (fst (checkAchievements (store_up 0) fifty_items [] new_engine)))) = 1000"
proof -
  let ?g1 = "fst (checkAchievements (store_up 0) fifty_items [] new_engine)"
  have up: "readable (store_up 0)" "writable (store_up 0)" "readable (store_up 1)"
      "writable (store_up 1)"
    by (simp_all add: store_up_def)
  have dn: "\<not> readable reads_down" "writable reads_down" by (simp_all add: reads_down_def)
  note ev = fifty_items_unlocks
  from checkAchievements_writable[OF up(2), of fifty_items "[]" new_engine] obtain g' news where
    c1: "checkAchievements (store_up 0) fifty_items [] new_engine = (g', Inr news)"
        "map id_ach news = map id_def (newly_unlocked (store_up 0) fifty_items [] new_engine)"
        "userXP g' = foldl fadd (userXP new_engine)
                       (map xpReward (newly_unlocked (store_up 0) fifty_items [] new_engine))"
        "goals_tbl (storage g') = goals_tbl (storage new_engine)"
        "unlocked_in (insights_tbl (storage g'))
           = unlocked_in (insights_tbl (storage new_engine)) \<union> set (map id_ach news)"
    by blast
  have g1: "?g1 = g'" using c1(1) by simp
  have a: "returned_ids (checkAchievements (store_up 0) fifty_items [] new_engine)
     = [''content_creator'']"
    using c1(1,2) ev by (simp add: returned_ids_def)
  have b: "userXP ?g1 = 500" using g1 c1(3) ev by simp
  have c: "unlocked_in (insights_tbl (storage ?g1)) = {''content_creator''}"
    using g1 c1(2,5) ev by simp
  have goals: "goals_tbl (storage ?g1) = goals_tbl (storage new_engine)" using g1 c1(4) by simp
  have met: "\<And>e d. all_requirements_met e d fifty_items [] ?g1
                 = all_requirements_met e d fifty_items [] new_engine"
    using all_requirements_met_goals[OF goals] by simp
  have u2: "unlocked_ids (store_up 1) ?g1 = set [''content_creator'']"
    using unlocked_ids_readable[OF up(3), of ?g1] c by simp
  have n2: "newly_unlocked (store_up 1) fifty_items [] ?g1 = []"
    unfolding newly_unlocked_def u2 met by (rule fifty_items_rest)
  have n3: "newly_unlocked reads_down fifty_items [] ?g1
              = newly_unlocked reads_down fifty_items [] new_engine"
    by (simp add: newly_unlocked_def unlocked_ids_unreadable[OF dn(1)] met)
  from checkAchievements_writable[OF up(4), of fifty_items "[]" ?g1] obtain g2 news2 where
    c2: "checkAchievements (store_up 1) fifty_items [] ?g1 = (g2, Inr news2)"
        "map id_ach news2 = map id_def (newly_unlocked (store_up 1) fifty_items [] ?g1)"
        "userXP g2 = foldl fadd (userXP ?g1)
                       (map xpReward (newly_unlocked (store_up 1) fifty_items [] ?g1))"
    by blast
  from checkAchievements_writable[OF dn(2), of fifty_items "[]" ?g1] obtain g3 news3 where
    c3: "checkAchievements reads_down fifty_items [] ?g1 = (g3, Inr news3)"
        "map id_ach news3 = map id_def (newly_unlocked reads_down fifty_items [] ?g1)"
        "userXP g3 = foldl fadd (userXP ?g1)
                       (map xpReward (newly_unlocked reads_down fifty_items [] ?g1))"
    by blast
  have d: "returned_ids (checkAchievements (store_up 1) fifty_items [] ?g1) = []"
    using c2(1,2) n2 by (simp add: returned_ids_def)
  have e: "userXP (fst (checkAchievements (store_up 1) fifty_items [] ?g1)) = 500"
    using c2(1,3) n2 b by simp
  have f: "returned_ids (checkAchievements reads_down fifty_items [] ?g1) = [''content_creator'']"
    using c3(1,2) n3 ev by (simp add: returned_ids_def)
  have h: "userXP (fst (checkAchievements reads_down fifty_items [] ?g1)) = 1000"
    using c3(1,3) n3 b ev by simp
  show ?thesis using a b c d e f h by simp
qed


end
